theory Spec2Isabelle
  imports Complex_Main "HOL-Library.Sublist"
begin

section \<open>JavaScript strings and numbers\<close>

text \<open>
  Strings are lists of UTF-16 code units below 256: ASCII and the Latin-1 supplement, whose
  code points are their code units. Text with a code unit from 256 on is outside the model.
  In this range the white space of \<open>\s\<close> and of \<open>trim\<close> is tab, LF, VT, FF, CR, the space and
  the no-break space U+00A0; the word characters of \<open>\w\<close> and the digits of \<open>\d\<close> are those
  of ASCII; the letters with a case are A-Z, a-z, and U+00C0-U+00DE, U+00E0-U+00FE without
  the multiplication and the division sign.
\<close>

definition is_upper :: "char \<Rightarrow> bool" where
  \<comment> \<open>A-Z\<close>
  "is_upper c = (65 \<le> (of_char c :: nat) \<and> (of_char c :: nat) \<le> 90)"

definition is_lower :: "char \<Rightarrow> bool" where
  \<comment> \<open>a-z\<close>
  "is_lower c = (97 \<le> (of_char c :: nat) \<and> (of_char c :: nat) \<le> 122)"

definition is_upper_latin :: "char \<Rightarrow> bool" where
  \<comment> \<open>the capital letters U+00C0-U+00DE; U+00D7 is the multiplication sign\<close>
  "is_upper_latin c =
     (192 \<le> (of_char c :: nat) \<and> (of_char c :: nat) \<le> 222 \<and> (of_char c :: nat) \<noteq> 215)"

definition is_lower_latin :: "char \<Rightarrow> bool" where
  \<comment> \<open>the small letters U+00E0-U+00FE; U+00F7 is the division sign\<close>
  "is_lower_latin c =
     (224 \<le> (of_char c :: nat) \<and> (of_char c :: nat) \<le> 254 \<and> (of_char c :: nat) \<noteq> 247)"

definition is_digit :: "char \<Rightarrow> bool" where
  "is_digit c = (48 \<le> (of_char c :: nat) \<and> (of_char c :: nat) \<le> 57)"

definition is_word :: "char \<Rightarrow> bool" where
  \<comment> \<open>\<open>\w\<close>: the ASCII letters, the digits and the underscore\<close>
  "is_word c = (is_upper c \<or> is_lower c \<or> is_digit c \<or> c = CHR ''_'')"

definition is_space :: "char \<Rightarrow> bool" where
  \<comment> \<open>\<open>\s\<close> and what \<open>trim\<close> removes: tab, LF, VT, FF, CR, space, no-break space\<close>
  "is_space c = ((of_char c :: nat) \<in> {9, 10, 11, 12, 13, 32, 160})"

definition lower_char :: "char \<Rightarrow> char" where
  \<comment> \<open>a capital letter gets bit 5 set (code + 32)\<close>
  "lower_char c =
     (if is_upper c \<or> is_upper_latin c
      then (case c of Char b0 b1 b2 b3 b4 b5 b6 b7 \<Rightarrow> Char b0 b1 b2 b3 b4 True b6 b7)
      else c)"

definition upper_char :: "char \<Rightarrow> char" where
  \<comment> \<open>a small letter gets bit 5 cleared (code - 32). The sharp s U+00DF and the two letters
      whose capital has a code unit above 255, the micro sign U+00B5 and U+00FF, stay.\<close>
  "upper_char c =
     (if is_lower c \<or> is_lower_latin c
      then (case c of Char b0 b1 b2 b3 b4 b5 b6 b7 \<Rightarrow> Char b0 b1 b2 b3 b4 False b6 b7)
      else c)"

definition toLowerCase :: "string \<Rightarrow> string" where
  "toLowerCase s = map lower_char s"

definition upper_text :: "char \<Rightarrow> string" where
  \<comment> \<open>the upper case of one code unit: the sharp s becomes two letters\<close>
  "upper_text c = (if c = CHR 0xDF then ''SS'' else [upper_char c])"

definition toUpperCase :: "string \<Rightarrow> string" where
  \<comment> \<open>the capitals of U+00B5 and U+00FF lie outside the alphabet of the model, which keeps
      the two letters: like their capitals they are no ASCII letter, no word character and
      no white space, and the code only asks whether the upper-cased text starts with
      \<open>SELECT\<close>\<close>
  "toUpperCase s = concat (map upper_text s)"

definition canonicalize :: "char \<Rightarrow> char" where
  \<comment> \<open>how an expression with the \<open>i\<close> flag compares characters: by their upper case
      when that is one code unit\<close>
  "canonicalize c = upper_char c"

definition trimStart :: "string \<Rightarrow> string" where
  "trimStart s = dropWhile is_space s"

definition trimEnd :: "string \<Rightarrow> string" where
  "trimEnd s = rev (dropWhile is_space (rev s))"

definition trim :: "string \<Rightarrow> string" where
  "trim s = trimEnd (trimStart s)"

fun startsWith :: "string \<Rightarrow> string \<Rightarrow> bool" where
  "startsWith s [] = True"
| "startsWith [] (p # ps) = False"
| "startsWith (c # s) (p # ps) = (c = p \<and> startsWith s ps)"

fun includes_str :: "string \<Rightarrow> string \<Rightarrow> bool" where
  \<comment> \<open>\<open>s.includes(t)\<close>: \<open>t\<close> starts at some position of \<open>s\<close>\<close>
  "includes_str [] t = (t = [])"
| "includes_str (c # s) t = (startsWith (c # s) t \<or> includes_str s t)"

definition digit_char :: "nat \<Rightarrow> char" where
  "digit_char d = ''0123456789'' ! d"

function show_nat :: "nat \<Rightarrow> string" where
  \<comment> \<open>a non-negative integer in a template literal: its decimal digits\<close>
  "show_nat n = (if n < 10 then [digit_char n] else show_nat (n div 10) @ [digit_char (n mod 10)])"
  by pat_completeness auto
termination
  by (relation "measure (\<lambda>n. n)") auto

declare show_nat.simps [simp del]

definition digit_val :: "char \<Rightarrow> nat" where
  "digit_val c = (of_char c :: nat) - 48"

definition read_nat :: "string \<Rightarrow> nat" where
  \<comment> \<open>\<open>parseInt\<close> of a string of decimal digits\<close>
  "read_nat s = foldl (\<lambda>a c. 10 * a + digit_val c) 0 s"

datatype error = Error string

section \<open>Row-level access filter (middleware/rbac.ts)\<close>

record AuthenticatedUser =
  id' :: string
  email :: string
  name' :: string
  role :: string
  team_id :: string

record RBACFilter =
  userFilter :: string
  teamFilter :: string
  params :: "string list"

text \<open>
  The role is typed \<open>'admin' | 'manager' | 'employee'\<close>, but it is read from the users
  table and the switch has a \<open>default\<close> branch that throws, so the model keeps it a string.
  \<open>paramOffset\<close> is the length of the caller's parameter array, a natural number.
\<close>

definition getRBACFilters :: "AuthenticatedUser \<Rightarrow> nat \<Rightarrow> error + RBACFilter" where
  "getRBACFilters user paramOffset =
    (if role user = ''admin'' then
       Inr \<lparr>userFilter = ''1=1'', teamFilter = ''1=1'', params = []\<rparr>
     else if role user = ''manager'' then
       Inr \<lparr>userFilter = ''user_id IN (SELECT id FROM users WHERE team_id = $''
                          @ show_nat (paramOffset + 1) @ '')'',
            teamFilter = ''team_id = $'' @ show_nat (paramOffset + 1),
            params = [team_id user]\<rparr>
     else if role user = ''employee'' then
       Inr \<lparr>userFilter = ''user_id = $'' @ show_nat (paramOffset + 1),
            teamFilter = ''team_id = $'' @ show_nat (paramOffset + 1),
            params = [id' user]\<rparr>
     else Inl (Error (''Unknown role: '' @ role user)))"

section \<open>JSON values and JavaScript coercions\<close>

text \<open>
  \<open>JSON.parse\<close> belongs to the language: the model starts from its result, a JSON value,
  or from the fact that it threw. So does the number that a string converts to (the
  grammar of numeric literals, applied by \<open>Math.max\<close> to a string argument): it is a
  parameter \<open>num\<close> of the functions that convert. A JavaScript number is a rational, an
  infinity or NaN; rounding to a double is not modelled.
\<close>

datatype jsnum = NaN | NegInf | Num rat | PosInf

datatype json =
    JNull
  | JBool bool
  | JNum jsnum
  | JStr string
  | JArr "json list"
  | JObj "(string \<times> json) list"

datatype jsval = Undefined | Val json

fun js_le :: "jsnum \<Rightarrow> jsnum \<Rightarrow> bool" where
  \<comment> \<open>the order of the numbers; NaN compares false with everything\<close>
  "js_le NaN b = False"
| "js_le a NaN = False"
| "js_le NegInf b = True"
| "js_le a PosInf = True"
| "js_le (Num x) (Num y) = (x \<le> y)"
| "js_le a b = False"

definition js_lt :: "jsnum \<Rightarrow> jsnum \<Rightarrow> bool" where
  \<comment> \<open>\<open>a < b\<close>\<close>
  "js_lt a b = (js_le a b \<and> a \<noteq> b)"

definition Math_max :: "jsnum \<Rightarrow> jsnum \<Rightarrow> jsnum" where
  "Math_max a b = (if a = NaN \<or> b = NaN then NaN else if js_le a b then b else a)"

definition Math_min :: "jsnum \<Rightarrow> jsnum \<Rightarrow> jsnum" where
  "Math_min a b = (if a = NaN \<or> b = NaN then NaN else if js_le a b then a else b)"

definition getProp :: "json \<Rightarrow> string \<Rightarrow> error + jsval" where
  \<comment> \<open>\<open>v.key\<close> for a key that no prototype defines: a TypeError on null, the member of an
      object (the last one, if the text repeated the key), undefined otherwise\<close>
  "getProp v key =
     (case v of
        JNull \<Rightarrow> Inl (Error ''Cannot read properties of null'')
      | JObj kvs \<Rightarrow> (case map_of (rev kvs) key of None \<Rightarrow> Inr Undefined | Some x \<Rightarrow> Inr (Val x))
      | _ \<Rightarrow> Inr Undefined)"

fun truthy :: "jsval \<Rightarrow> bool" where
  "truthy Undefined = False"
| "truthy (Val JNull) = False"
| "truthy (Val (JBool b)) = b"
| "truthy (Val (JNum n)) = (n \<noteq> NaN \<and> n \<noteq> Num 0)"
| "truthy (Val (JStr s)) = (s \<noteq> [])"
| "truthy (Val v) = True"

definition or_else :: "jsval \<Rightarrow> json \<Rightarrow> json" where
  \<comment> \<open>\<open>v || d\<close>\<close>
  "or_else v d = (case v of Undefined \<Rightarrow> d | Val x \<Rightarrow> if truthy v then x else d)"

fun to_string_throws :: "json \<Rightarrow> bool" where
  \<comment> \<open>converting an object to a primitive throws when the object has a member \<open>toString\<close>
      of its own, which is not callable; an array converts its elements\<close>
  "to_string_throws (JObj kvs) = (''toString'' \<in> fst ` set kvs)"
| "to_string_throws (JArr xs) = (\<exists>x \<in> set xs. to_string_throws x)"
| "to_string_throws v = False"

fun array_number :: "(string \<Rightarrow> jsnum) \<Rightarrow> json list \<Rightarrow> jsnum" where
  \<comment> \<open>the number of an array: that of its elements joined by commas. The empty text is 0;
      a text with a comma, \<open>true\<close>, \<open>false\<close> and \<open>[object Object]\<close> are no numeric literals\<close>
  "array_number num [] = Num 0"
| "array_number num [JNull] = Num 0"
| "array_number num [JNum n] = n"
| "array_number num [JStr s] = num s"
| "array_number num [JArr ys] = array_number num ys"
| "array_number num xs = NaN"

definition ToNumber :: "(string \<Rightarrow> jsnum) \<Rightarrow> json \<Rightarrow> error + jsnum" where
  "ToNumber num v =
     (if to_string_throws v then Inl (Error ''Cannot convert object to primitive value'')
      else Inr (case v of
                  JNull \<Rightarrow> Num 0
                | JBool b \<Rightarrow> (if b then Num 1 else Num 0)
                | JNum n \<Rightarrow> n
                | JStr s \<Rightarrow> num s
                | JArr xs \<Rightarrow> array_number num xs
                | JObj kvs \<Rightarrow> NaN))"

section \<open>Feedback statistics and confidence thresholds (classification/feedback.ts)\<close>

text \<open>
  The tables the classification workflow reads and writes. Confidences and rates are
  JavaScript numbers; the model uses rationals, on which the comparisons of the code are
  exact. The statistics queries are modelled by their SQL meaning on the table contents.
\<close>

record PendingRow =
  p_id :: string
  p_app_name :: string
  p_team_id :: string
  p_suggested :: string
  p_confidence :: jsnum
  p_reasoning :: json
  p_status :: string
  p_created_at :: nat

record FeedbackRow =
  f_rule_id :: string
  f_original :: string
  f_corrected :: string

definition statusCounts :: "PendingRow list \<Rightarrow> (string \<times> nat) list" where
  \<comment> \<open>\<open>SELECT status, COUNT(*) FROM pending_classifications WHERE status != 'pending'
      GROUP BY status\<close>: one row for each status present\<close>
  "statusCounts tbl =
     (let rows = filter (\<lambda>r. p_status r \<noteq> ''pending'') tbl
      in map (\<lambda>s. (s, length (filter (\<lambda>r. p_status r = s) rows)))
             (remdups (map p_status rows)))"

fun tallyStatus :: "(string \<times> nat) list \<Rightarrow> nat \<times> nat \<Rightarrow> nat \<times> nat" where
  \<comment> \<open>the loop over the status rows, carrying \<open>(totalApprovals, totalRejections)\<close>\<close>
  "tallyStatus [] acc = acc"
| "tallyStatus ((s, n) # rows) (a, r) =
     (if s = ''approved'' then tallyStatus rows (n, r)
      else if s = ''rejected'' then tallyStatus rows (a, n)
      else tallyStatus rows (a, r))"

definition accuracyRows :: "FeedbackRow list \<Rightarrow> (string \<times> nat \<times> nat) list" where
  \<comment> \<open>\<open>SELECT original_classification, COUNT(*) AS total, SUM(CASE WHEN original = corrected
      THEN 1 ELSE 0 END) AS correct FROM classification_feedback GROUP BY
      original_classification\<close>\<close>
  "accuracyRows tbl =
     map (\<lambda>c. (c, length (filter (\<lambda>r. f_original r = c) tbl),
                 length (filter (\<lambda>r. f_original r = c \<and> f_original r = f_corrected r) tbl)))
         (remdups (map f_original tbl))"

fun tallyAccuracy :: "(string \<times> nat \<times> nat) list \<Rightarrow> (string \<Rightarrow> rat) \<Rightarrow> (string \<Rightarrow> rat)" where
  "tallyAccuracy [] acc = acc"
| "tallyAccuracy ((c, tot, correct) # rows) acc =
     tallyAccuracy rows (acc(c := of_nat correct / of_nat tot))"

record FeedbackStats =
  totalApprovals :: nat
  totalRejections :: nat
  totalOverrides :: nat
  approvalRate :: rat
  classificationAccuracy :: "string \<Rightarrow> rat"

definition getFeedbackStats :: "PendingRow list \<Rightarrow> FeedbackRow list \<Rightarrow> FeedbackStats" where
  "getFeedbackStats pendingTbl feedbackTbl =
     (let (approvals, rejections) = tallyStatus (statusCounts pendingTbl) (0, 0);
          tot = approvals + rejections
      in \<lparr>totalApprovals = approvals,
          totalRejections = rejections,
          totalOverrides = length feedbackTbl,
          approvalRate = (if tot > 0 then of_nat approvals / of_nat tot else 0),
          classificationAccuracy = tallyAccuracy (accuracyRows feedbackTbl) (\<lambda>_. 1)\<rparr>)"

record Thresholds =
  autoApprove :: rat
  requireReview :: rat

definition getAdjustedConfidenceThresholds :: "PendingRow list \<Rightarrow> FeedbackRow list \<Rightarrow> Thresholds" where
  "getAdjustedConfidenceThresholds pendingTbl feedbackTbl =
     (let stats = getFeedbackStats pendingTbl feedbackTbl
      in \<lparr>autoApprove =
            (if totalApprovals stats + totalRejections stats \<ge> 50 then
               (if approvalRate stats > 95 / 100 then 85 / 100
                else if approvalRate stats < 8 / 10 then 95 / 100
                else 9 / 10)
             else 9 / 10),
          requireReview = 7 / 10\<rparr>)"

definition approved_row :: PendingRow where
  \<comment> \<open>an example of a reviewed suggestion that was approved\<close>
  "approved_row =
     \<lparr>p_id = ''p1'', p_app_name = ''slack'', p_team_id = ''t1'', p_suggested = ''productive'',
      p_confidence = Num (8 / 10), p_reasoning = JStr ''team chat'', p_status = ''approved'',
      p_created_at = 0\<rparr>"

definition rejected_row :: PendingRow where
  \<comment> \<open>an example of a reviewed suggestion that was rejected\<close>
  "rejected_row =
     \<lparr>p_id = ''p2'', p_app_name = ''steam'', p_team_id = ''t1'', p_suggested = ''productive'',
      p_confidence = Num (6 / 10), p_reasoning = JStr ''games'', p_status = ''rejected'',
      p_created_at = 0\<rparr>"

definition countStatus :: "string \<Rightarrow> PendingRow list \<Rightarrow> nat" where
  \<comment> \<open>the number of rows of the table with the given status\<close>
  "countStatus s tbl = length (filter (\<lambda>r. p_status r = s) tbl)"

section \<open>Regular expressions\<close>

text \<open>
  The regular expressions of the source are written as terms of the datatype \<open>regex\<close> and
  run by a backtracking matcher that lists the possible outcomes in the order in which the
  JavaScript engine tries them: the head of the list is the match the engine reports. A
  greedy star tries one more iteration first, a lazy star tries to stop first, and an
  iteration that consumes nothing is rejected. The fuel bounds the iterations of a star and
  is the length of the text, so it never runs out.
\<close>

datatype cset =
    CChr char  \<comment> \<open>a literal character\<close>
  | CSpace     \<comment> \<open>\<open>\s\<close>\<close>
  | CWord      \<comment> \<open>\<open>\w\<close>\<close>
  | CDigit     \<comment> \<open>\<open>\d\<close>\<close>
  | CAny       \<comment> \<open>\<open>.\<close>: anything but a line terminator\<close>
  | CAll       \<comment> \<open>\<open>[\s\S]\<close>\<close>
  | CNot char  \<comment> \<open>\<open>[^c]\<close>\<close>

datatype regex =
    Eps
  | Ch cset
  | Seq regex regex
  | Alt regex regex
  | Star regex
  | StarLazy regex
  | Group nat regex
  | WordB

fun cset_match :: "bool \<Rightarrow> cset \<Rightarrow> char \<Rightarrow> bool" where
  \<comment> \<open>the first argument is the \<open>i\<close> flag\<close>
  "cset_match ci (CChr a) c = (if ci then canonicalize a = canonicalize c else a = c)"
| "cset_match ci CSpace c = is_space c"
| "cset_match ci CWord c = is_word c"
| "cset_match ci CDigit c = is_digit c"
| "cset_match ci CAny c = ((of_char c :: nat) \<notin> {10, 13})"
| "cset_match ci CAll c = True"
| "cset_match ci (CNot a) c = (c \<noteq> a)"

type_synonym captures = "(nat \<times> string) list"

type_synonym mstate = "char option \<times> string \<times> captures"
  \<comment> \<open>the character before the current position, the rest of the text, the groups so far\<close>

definition word_before :: "char option \<Rightarrow> bool" where
  "word_before p = (case p of None \<Rightarrow> False | Some c \<Rightarrow> is_word c)"

definition word_at :: "string \<Rightarrow> bool" where
  "word_at s = (case s of [] \<Rightarrow> False | c # _ \<Rightarrow> is_word c)"

fun rmatch :: "bool \<Rightarrow> nat \<Rightarrow> regex \<Rightarrow> mstate \<Rightarrow> mstate list" where
  "rmatch ci n Eps st = [st]"
| "rmatch ci n (Ch cs) (p, [], caps) = []"
| "rmatch ci n (Ch cs) (p, c # s, caps) = (if cset_match ci cs c then [(Some c, s, caps)] else [])"
| "rmatch ci n (Seq a b) st = concat (map (rmatch ci n b) (rmatch ci n a st))"
| "rmatch ci n (Alt a b) st = rmatch ci n a st @ rmatch ci n b st"
| "rmatch ci 0 (Star a) st = [st]"
| "rmatch ci (Suc n) (Star a) st =
     concat (map (\<lambda>st'. if length (fst (snd st')) < length (fst (snd st))
                          then rmatch ci n (Star a) st' else [])
                 (rmatch ci (Suc n) a st)) @ [st]"
| "rmatch ci 0 (StarLazy a) st = [st]"
| "rmatch ci (Suc n) (StarLazy a) st =
     st # concat (map (\<lambda>st'. if length (fst (snd st')) < length (fst (snd st))
                               then rmatch ci n (StarLazy a) st' else [])
                      (rmatch ci (Suc n) a st))"
| "rmatch ci n (Group k a) (p, s, caps) =
     map (\<lambda>(p', s', caps'). (p', s', (k, take (length s - length s') s) # caps'))
         (rmatch ci n a (p, s, caps))"
| "rmatch ci n WordB (p, s, caps) = (if word_before p \<noteq> word_at s then [(p, s, caps)] else [])"

definition Str :: "string \<Rightarrow> regex" where
  "Str s = foldr (\<lambda>c r. Seq (Ch (CChr c)) r) s Eps"

definition Plus :: "regex \<Rightarrow> regex" where
  "Plus r = Seq r (Star r)"

definition PlusLazy :: "regex \<Rightarrow> regex" where
  "PlusLazy r = Seq r (StarLazy r)"

definition Opt :: "regex \<Rightarrow> regex" where
  "Opt r = Alt r Eps"

fun seqs :: "regex list \<Rightarrow> regex" where
  "seqs [] = Eps"
| "seqs [r] = r"
| "seqs (r # rs) = Seq r (seqs rs)"

fun alts :: "regex list \<Rightarrow> regex" where
  "alts [] = Eps"
| "alts [r] = r"
| "alts (r # rs) = Alt r (alts rs)"

fun ngroups :: "regex \<Rightarrow> nat" where
  "ngroups (Seq a b) = ngroups a + ngroups b"
| "ngroups (Alt a b) = ngroups a + ngroups b"
| "ngroups (Star a) = ngroups a"
| "ngroups (StarLazy a) = ngroups a"
| "ngroups (Group k a) = Suc (ngroups a)"
| "ngroups r = 0"

definition cap :: "captures \<Rightarrow> nat \<Rightarrow> string" where
  \<comment> \<open>the text of group \<open>k\<close>; a group that took no part in the match counts as empty\<close>
  "cap caps k = (case map_of caps k of None \<Rightarrow> [] | Some v \<Rightarrow> v)"

type_synonym rmatch_result = "nat \<times> nat \<times> captures"
  \<comment> \<open>start index, length of the match, groups\<close>

fun find_from :: "bool \<Rightarrow> regex \<Rightarrow> nat \<Rightarrow> char option \<Rightarrow> string \<Rightarrow> rmatch_result option" where
  \<comment> \<open>\<open>exec\<close>: the first position from \<open>pos\<close> on at which the expression matches\<close>
  "find_from ci r pos p s =
     (case rmatch ci (length s) r (p, s, []) of
        (p', s', caps) # _ \<Rightarrow> Some (pos, length s - length s', caps)
      | [] \<Rightarrow> (case s of [] \<Rightarrow> None | c # s'' \<Rightarrow> find_from ci r (Suc pos) (Some c) s''))"

definition re_exec :: "bool \<Rightarrow> regex \<Rightarrow> string \<Rightarrow> rmatch_result option" where
  "re_exec ci r s = find_from ci r 0 None s"

definition re_test :: "bool \<Rightarrow> regex \<Rightarrow> string \<Rightarrow> bool" where
  "re_test ci r s = (re_exec ci r s \<noteq> None)"

definition prev_after :: "char option \<Rightarrow> string \<Rightarrow> char option" where
  "prev_after p t = (if t = [] then p else Some (last t))"

function gmatches :: "bool \<Rightarrow> regex \<Rightarrow> nat \<Rightarrow> char option \<Rightarrow> string \<Rightarrow> rmatch_result list" where
  \<comment> \<open>the successive matches of a \<open>g\<close> expression: the search resumes at the end of a match,
      one character further after an empty match\<close>
  "gmatches ci r pos p s =
     (case find_from ci r pos p s of
        None \<Rightarrow> []
      | Some (i, l, caps) \<Rightarrow>
          (i, l, caps) #
          (let k = (i - pos) + (if l = 0 then 1 else l)
           in if length s < k then []
              else gmatches ci r (pos + k) (prev_after p (take k s)) (drop k s)))"
  by pat_completeness auto
termination
  by (relation "measure (\<lambda>(ci, r, pos, p, s). length s)") (auto split: if_splits)

declare gmatches.simps [simp del]

fun expand :: "nat \<Rightarrow> string \<Rightarrow> string \<Rightarrow> string \<Rightarrow> string \<Rightarrow> captures \<Rightarrow> string" where
  \<comment> \<open>the replacement text of \<open>String.prototype.replace\<close>: \<open>$$\<close>, \<open>$&\<close>, the text before
      and after the match, and \<open>$n\<close>, \<open>$nn\<close> for the groups \<open>1..m\<close> of the expression\<close>
  "expand m [] mt pre post caps = []"
| "expand m [c] mt pre post caps = [c]"
| "expand m (c # d # t) mt pre post caps =
     (if c \<noteq> CHR ''$'' then c # expand m (d # t) mt pre post caps
      else if d = CHR ''$'' then CHR ''$'' # expand m t mt pre post caps
      else if d = CHR ''&'' then mt @ expand m t mt pre post caps
      else if d = CHR 0x60 then pre @ expand m t mt pre post caps
      else if d = CHR 0x27 then post @ expand m t mt pre post caps
      else if is_digit d then
        (case t of
           e # t' \<Rightarrow>
             if is_digit e \<and> 1 \<le> 10 * digit_val d + digit_val e \<and> 10 * digit_val d + digit_val e \<le> m
             then cap caps (10 * digit_val d + digit_val e) @ expand m t' mt pre post caps
             else if 1 \<le> digit_val d \<and> digit_val d \<le> m
             then cap caps (digit_val d) @ expand m t mt pre post caps
             else c # expand m (d # t) mt pre post caps
         | [] \<Rightarrow>
             if 1 \<le> digit_val d \<and> digit_val d \<le> m
             then cap caps (digit_val d) @ expand m t mt pre post caps
             else c # expand m (d # t) mt pre post caps)
      else c # expand m (d # t) mt pre post caps)"

fun assemble :: "string \<Rightarrow> nat \<Rightarrow> string \<Rightarrow> nat \<Rightarrow> rmatch_result list \<Rightarrow> string" where
  \<comment> \<open>the text with each match replaced, copying what lies between the matches\<close>
  "assemble s m t pos [] = drop pos s"
| "assemble s m t pos ((i, l, caps) # ms) =
     take (i - pos) (drop pos s)
     @ expand m t (take l (drop i s)) (take i s) (drop (i + l) s) caps
     @ assemble s m t (i + l) ms"

definition replace_all :: "bool \<Rightarrow> regex \<Rightarrow> string \<Rightarrow> string \<Rightarrow> string" where
  \<comment> \<open>\<open>s.replace(/r/g, t)\<close>\<close>
  "replace_all ci r t s = assemble s (ngroups r) t 0 (gmatches ci r 0 None s)"

definition replace_first :: "bool \<Rightarrow> regex \<Rightarrow> string \<Rightarrow> string \<Rightarrow> string" where
  \<comment> \<open>\<open>s.replace(/r/, t)\<close>\<close>
  "replace_first ci r t s =
     assemble s (ngroups r) t 0 (case re_exec ci r s of None \<Rightarrow> [] | Some m \<Rightarrow> [m])"

fun index_of :: "string \<Rightarrow> string \<Rightarrow> nat option" where
  \<comment> \<open>the first position at which the second string starts in the first\<close>
  "index_of [] t = (if t = [] then Some 0 else None)"
| "index_of (c # s) t =
     (if startsWith (c # s) t then Some 0 else map_option Suc (index_of s t))"

definition replace_str :: "string \<Rightarrow> string \<Rightarrow> string \<Rightarrow> string" where
  \<comment> \<open>\<open>s.replace(pat, t)\<close> with a string pattern: the first occurrence only\<close>
  "replace_str pat t s =
     (case index_of s pat of
        None \<Rightarrow> s
      | Some i \<Rightarrow> take i s @ expand 0 t pat (take i s) (drop (i + length pat) s) []
                  @ drop (i + length pat) s)"

section \<open>Query validator and executor (services/queryExecutor.ts)\<close>

definition ALLOWED_TABLES :: "string set" where
  "ALLOWED_TABLES = {''users'', ''teams'', ''daily_usage'', ''app_usage'', ''projects'',
                     ''project_time'', ''classification_rules''}"

definition kw :: "string \<Rightarrow> regex" where
  \<comment> \<open>\<open>/\bWORD\b/\<close>\<close>
  "kw w = seqs [WordB, Str w, WordB]"

definition kw_source :: "string \<Rightarrow> string" where
  \<comment> \<open>the \<open>source\<close> text of \<open>/\bWORD\b/\<close>\<close>
  "kw_source w = [CHR 0x5C, CHR ''b''] @ w @ [CHR 0x5C, CHR ''b'']"

definition DANGEROUS_PATTERNS :: "(string \<times> regex) list" where
  \<comment> \<open>each pattern with its \<open>source\<close> text; all are applied with the \<open>i\<close> flag, which makes
      no difference to the last three\<close>
  "DANGEROUS_PATTERNS =
     map (\<lambda>w. (kw_source w, kw w))
         [''DROP'', ''DELETE'', ''TRUNCATE'', ''INSERT'', ''UPDATE'', ''ALTER'', ''CREATE'',
          ''GRANT'', ''REVOKE'']
     @ [([CHR '';'', CHR 0x5C, CHR ''s'', CHR ''*'', CHR 0x5C, CHR ''w''],
         seqs [Ch (CChr CHR '';''), Star (Ch CSpace), Ch CWord]),
        (''--'', Str ''--''),
        ([CHR 0x5C, CHR ''/'', CHR 0x5C, CHR ''*''], Str ''/*'')]"

definition tablePattern :: regex where
  \<comment> \<open>\<open>/\bFROM\s+(\w+)|\bJOIN\s+(\w+)/gi\<close>\<close>
  "tablePattern =
     Alt (seqs [WordB, Str ''FROM'', Plus (Ch CSpace), Group 1 (Plus (Ch CWord))])
         (seqs [WordB, Str ''JOIN'', Plus (Ch CSpace), Group 2 (Plus (Ch CWord))])"

record QueryValidationResult =
  valid :: bool
  error :: "string option"
  tablesAccessed :: "string list"

fun first_forbidden :: "(string \<times> regex) list \<Rightarrow> string \<Rightarrow> string option" where
  \<comment> \<open>the loop over the patterns: the source text of the first one that matches\<close>
  "first_forbidden [] sql = None"
| "first_forbidden ((src, r) # ps) sql =
     (if re_test True r sql then Some src else first_forbidden ps sql)"

definition tableName :: "rmatch_result \<Rightarrow> string" where
  \<comment> \<open>\<open>(match[1] || match[2]).toLowerCase()\<close>\<close>
  "tableName m =
     (case m of (i, l, caps) \<Rightarrow> toLowerCase (if cap caps 1 \<noteq> [] then cap caps 1 else cap caps 2))"

definition tables_following :: "string \<Rightarrow> string list" where
  \<comment> \<open>the names after FROM or JOIN, one for each match of the table pattern, in order\<close>
  "tables_following sql = map tableName (gmatches True tablePattern 0 None sql)"

fun collect_tables :: "string list \<Rightarrow> string list \<Rightarrow> string list" where
  \<comment> \<open>the \<open>while\<close> loop: a name is pushed unless the list has it already\<close>
  "collect_tables tables [] = tables"
| "collect_tables tables (t # ts) =
     (if t \<in> set tables then collect_tables tables ts else collect_tables (tables @ [t]) ts)"

fun first_disallowed :: "string list \<Rightarrow> string option" where
  "first_disallowed [] = None"
| "first_disallowed (t # ts) = (if t \<notin> ALLOWED_TABLES then Some t else first_disallowed ts)"

definition validateQuery :: "string \<Rightarrow> QueryValidationResult" where
  "validateQuery sql =
     (case first_forbidden DANGEROUS_PATTERNS sql of
        Some src \<Rightarrow>
          \<lparr>valid = False, error = Some (''Query contains forbidden pattern: '' @ src),
           tablesAccessed = []\<rparr>
      | None \<Rightarrow>
          if \<not> startsWith (toUpperCase (trim sql)) ''SELECT'' then
            \<lparr>valid = False, error = Some ''Only SELECT queries are allowed'', tablesAccessed = []\<rparr>
          else
            (let tables = collect_tables [] (tables_following sql)
             in case first_disallowed tables of
                  Some t \<Rightarrow>
                    \<lparr>valid = False,
                     error = Some (''Access to table '' @ [CHR 0x27] @ t @ [CHR 0x27] @ '' is not allowed''),
                     tablesAccessed = tables\<rparr>
                | None \<Rightarrow> \<lparr>valid = True, error = None, tablesAccessed = tables\<rparr>))"

text \<open>
  The database is an external collaborator: a function from a statement and its parameters
  to an error or to rows, together with the list of the statements run so far. The rows are
  kept abstract. The elapsed time is read from the clock and is an input of the model.
\<close>

record 'row Database =
  run :: "string \<Rightarrow> string list \<Rightarrow> error + 'row list"
  statements :: "(string \<times> string list) list"

definition query :: "'row Database \<Rightarrow> string \<Rightarrow> string list \<Rightarrow> (error + 'row list) \<times> 'row Database" where
  "query db sql ps = (run db sql ps, db\<lparr>statements := statements db @ [(sql, ps)]\<rparr>)"

record 'row QueryResult =
  qr_rows :: "'row list"
  rowCount :: nat
  qr_tablesAccessed :: "string list"
  executionTimeMs :: nat

definition error_text :: "string option \<Rightarrow> string" where
  \<comment> \<open>an absent message prints as \<open>undefined\<close> in a template literal\<close>
  "error_text e = (case e of None \<Rightarrow> ''undefined'' | Some m \<Rightarrow> m)"

definition executeQuery ::
  "nat \<Rightarrow> 'row Database \<Rightarrow> string \<Rightarrow> string list \<Rightarrow> (error + 'row QueryResult) \<times> 'row Database" where
  "executeQuery elapsed db sql ps =
     (let validation = validateQuery sql
      in if \<not> valid validation then
           (Inl (Error (''Query validation failed: '' @ error_text (error validation))), db)
         else
           (case query db sql ps of
              (Inr result, db') \<Rightarrow>
                (Inr \<lparr>qr_rows = result, rowCount = length result,
                      qr_tablesAccessed = tablesAccessed validation,
                      executionTimeMs = elapsed\<rparr>, db')
            | (Inl (Error m), db') \<Rightarrow> (Inl (Error (''Query execution failed: '' @ m)), db')))"

section \<open>LLM classifier (classification/classifier.ts)\<close>

record ClassificationResult =
  classification :: string
  confidence :: jsnum
  reasoning :: json
  factors :: json

definition fencePattern :: regex where
  \<comment> \<open>\<open>/```(?:json)?\s*([\s\S]*?)```/\<close>\<close>
  "fencePattern =
     seqs [Str [CHR 0x60, CHR 0x60, CHR 0x60], Opt (Str ''json''), Star (Ch CSpace),
           Group 1 (StarLazy (Ch CAll)), Str [CHR 0x60, CHR 0x60, CHR 0x60]]"

definition extractJson :: "string \<Rightarrow> string" where
  \<comment> \<open>the text handed to \<open>JSON.parse\<close>: the inside of a code fence if there is one, trimmed\<close>
  "extractJson response =
     trim (case re_exec False fencePattern response of
             None \<Rightarrow> response
           | Some (i, l, caps) \<Rightarrow> cap caps 1)"

definition normalizeClassification :: "jsval \<Rightarrow> error + string" where
  \<comment> \<open>\<open>value?.toLowerCase()?.trim()\<close>: undefined for a missing or null value, a TypeError for
      a value that is no string\<close>
  "normalizeClassification v =
     (case v of
        Undefined \<Rightarrow> Inr ''neutral''
      | Val JNull \<Rightarrow> Inr ''neutral''
      | Val (JStr s) \<Rightarrow>
          (let normalized = trim (toLowerCase s)
           in if normalized = ''productive'' then Inr ''productive''
              else if normalized = ''unproductive'' then Inr ''unproductive''
              else Inr ''neutral'')
      | Val _ \<Rightarrow> Inl (Error ''value?.toLowerCase is not a function''))"

definition fallbackClassification :: ClassificationResult where
  "fallbackClassification =
     \<lparr>classification = ''neutral'', confidence = Num (3 / 10),
      reasoning = JStr ''Unable to classify automatically - requires manual review'',
      factors = JArr [JStr ''parsing_error'']\<rparr>"

definition classifyParsed :: "(string \<Rightarrow> jsnum) \<Rightarrow> json \<Rightarrow> error + ClassificationResult" where
  \<comment> \<open>the object built inside the \<open>try\<close> block from the parsed reply\<close>
  "classifyParsed num result =
     (case getProp result ''classification'' of
        Inl e \<Rightarrow> Inl e
      | Inr cv \<Rightarrow>
     (case normalizeClassification cv of
        Inl e \<Rightarrow> Inl e
      | Inr cls \<Rightarrow>
     (case getProp result ''confidence'' of
        Inl e \<Rightarrow> Inl e
      | Inr conf \<Rightarrow>
     (case ToNumber num (or_else conf (JNum (Num (1 / 2)))) of
        Inl e \<Rightarrow> Inl e
      | Inr n \<Rightarrow>
     (case getProp result ''reasoning'' of
        Inl e \<Rightarrow> Inl e
      | Inr rv \<Rightarrow>
     (case getProp result ''factors'' of
        Inl e \<Rightarrow> Inl e
      | Inr fv \<Rightarrow>
          Inr \<lparr>classification = cls,
               confidence = Math_min (Math_max n (Num 0)) (Num 1),
               reasoning = or_else rv (JStr ''No reasoning provided''),
               factors = or_else fv (JArr [])\<rparr>))))))"

definition classifyReply :: "(string \<Rightarrow> jsnum) \<Rightarrow> json option \<Rightarrow> ClassificationResult" where
  \<comment> \<open>the \<open>try\<close>/\<open>catch\<close> around parsing and normalising: \<open>None\<close> is \<open>JSON.parse\<close> throwing\<close>
  "classifyReply num parsed =
     (case parsed of
        None \<Rightarrow> fallbackClassification
      | Some result \<Rightarrow>
          (case classifyParsed num result of Inl e \<Rightarrow> fallbackClassification | Inr r \<Rightarrow> r))"

definition classifyApp ::
  "(string \<Rightarrow> json option) \<Rightarrow> (string \<Rightarrow> jsnum) \<Rightarrow> error + string
     \<Rightarrow> error + ClassificationResult" where
  \<comment> \<open>the first argument is \<open>JSON.parse\<close>, the second the number of a string, the third the
      outcome of the call to the LLM, which is outside the \<open>try\<close> block\<close>
  "classifyApp JSON_parse num reply =
     (case reply of
        Inl e \<Rightarrow> Inl e
      | Inr response \<Rightarrow> Inr (classifyReply num (JSON_parse (extractJson response))))"

definition in_unit_interval :: "jsnum \<Rightarrow> bool" where
  \<comment> \<open>\<open>0 \<le> n \<le> 1\<close>\<close>
  "in_unit_interval n = (js_le (Num 0) n \<and> js_le n (Num 1))"

section \<open>Audit log (services/auditLogger.ts)\<close>

record AuditLogEntry =
  agentType :: string
  userId :: string
  queryText :: string
  response :: "string option"
  sqlGenerated :: "string option"
  dataAccessed :: "string list option"
  entryTimeMs :: "nat option"
  success :: "bool option"
  errorMessage :: "string option"

record AuditRow =
  a_agent_type :: string
  a_user_id :: string
  a_query :: string
  a_response :: "string option"
  a_sql_generated :: "string option"
  a_data_accessed :: "string list"
  a_execution_time_ms :: "nat option"
  a_success :: bool
  a_error_message :: "string option"

definition or_null :: "string option \<Rightarrow> string option" where
  \<comment> \<open>\<open>s || null\<close>: the empty string is falsy\<close>
  "or_null s = (case s of None \<Rightarrow> None | Some t \<Rightarrow> if t = [] then None else Some t)"

definition auditRow :: "AuditLogEntry \<Rightarrow> AuditRow" where
  \<comment> \<open>the values bound to the INSERT of \<open>logAgentAction\<close>\<close>
  "auditRow entry =
     \<lparr>a_agent_type = agentType entry,
      a_user_id = userId entry,
      a_query = queryText entry,
      a_response = or_null (response entry),
      a_sql_generated = or_null (sqlGenerated entry),
      a_data_accessed = (case dataAccessed entry of None \<Rightarrow> [] | Some ts \<Rightarrow> ts),
      a_execution_time_ms =
        (case entryTimeMs entry of None \<Rightarrow> None | Some n \<Rightarrow> if n = 0 then None else Some n),
      a_success = (case success entry of None \<Rightarrow> True | Some b \<Rightarrow> b),
      a_error_message = or_null (errorMessage entry)\<rparr>"

section \<open>Classification agent (agents/classification/index.ts)\<close>

record RuleRow =
  r_id :: string
  r_app_name :: string
  r_classification :: string
  r_confidence :: jsnum
  r_reasoning :: json
  r_created_at :: nat

record Store =
  classification_rules :: "RuleRow list"
  pending_classifications :: "PendingRow list"
  classification_feedback :: "FeedbackRow list"
  agent_audit_log :: "AuditRow list"

text \<open>
  What lies outside the agent is an input of the model: whether a statement sent to the
  database fails (by the place in the code that sends it), the function \<open>LOWER\<close> of the
  database, by which the lookup of a rule compares names, the value that a
  \<open>DECIMAL(3,2)\<close> column keeps of a confidence, the reply of the LLM, \<open>JSON.parse\<close>, the
  number of a string, the text of a number in a template literal, the id and the timestamp
  the database gives a new row, and the time elapsed since the start of the invocation.
\<close>

datatype site =
    ExistingRuleQuery | UsageAnalysis | ThresholdQuery | InsertPending | InsertRule
  | AuditWrite | AuditWriteOnError

record Outside =
  o_fault :: "site \<Rightarrow> error option"
  o_lower :: "string \<Rightarrow> string"
  o_decimal :: "jsnum \<Rightarrow> jsnum"
  o_llm_reply :: "error + string"
  o_parse :: "string \<Rightarrow> json option"
  o_number :: "string \<Rightarrow> jsnum"
  o_num_text :: "jsnum \<Rightarrow> string"
  o_new_id :: string
  o_now :: nat
  o_elapsed :: nat

definition logAgentAction ::
  "Outside \<Rightarrow> site \<Rightarrow> Store \<Rightarrow> AuditLogEntry \<Rightarrow> (error + string) \<times> Store" where
  "logAgentAction env place st entry =
     (case o_fault env place of
        Some e \<Rightarrow> (Inl e, st)
      | None \<Rightarrow> (Inr (o_new_id env), st\<lparr>agent_audit_log := agent_audit_log st @ [auditRow entry]\<rparr>))"

record ClassificationSuggestion =
  s_id :: string
  appName :: string
  suggestedClassification :: string
  s_confidence :: jsnum
  s_reasoning :: json
  s_factors :: json
  requiresApproval :: bool
  createdAt :: nat

definition classificationEntry :: "string \<Rightarrow> AuthenticatedUser \<Rightarrow> nat \<Rightarrow> AuditLogEntry" where
  \<comment> \<open>what the three audit entries of \<open>classifyNewApp\<close> have in common\<close>
  "classificationEntry app user ms =
     \<lparr>agentType = ''classification'', userId = id' user,
      queryText = ''Classify app: '' @ app, response = None, sqlGenerated = None,
      dataAccessed = None, entryTimeMs = Some ms, success = None, errorMessage = None\<rparr>"

definition classifyNewApp_try ::
  "Outside \<Rightarrow> Store \<Rightarrow> string \<Rightarrow> AuthenticatedUser \<Rightarrow> (error + ClassificationSuggestion) \<times> Store" where
  \<comment> \<open>the \<open>try\<close> block\<close>
  "classifyNewApp_try env st app user =
    (case o_fault env ExistingRuleQuery of
       Some e \<Rightarrow> (Inl e, st)
     | None \<Rightarrow>
    (case filter (\<lambda>r. o_lower env (r_app_name r) = o_lower env app) (classification_rules st) of
       rule # _ \<Rightarrow>
         (Inr \<lparr>s_id = r_id rule, appName = r_app_name rule,
               suggestedClassification = r_classification rule,
               s_confidence = r_confidence rule,
               s_reasoning = or_else (Val (r_reasoning rule)) (JStr ''Existing classification rule''),
               s_factors = JArr [JStr ''existing_rule''],
               requiresApproval = False, createdAt = r_created_at rule\<rparr>, st)
     | [] \<Rightarrow>
    (case o_fault env UsageAnalysis of
       Some e \<Rightarrow> (Inl e, st)
     | None \<Rightarrow>
    (case classifyApp (o_parse env) (o_number env) (o_llm_reply env) of
       Inl e \<Rightarrow> (Inl e, st)
     | Inr result \<Rightarrow>
    (case o_fault env ThresholdQuery of
       Some e \<Rightarrow> (Inl e, st)
     | None \<Rightarrow>
       (let thresholds = getAdjustedConfidenceThresholds (pending_classifications st)
                           (classification_feedback st);
            needsReview = js_lt (confidence result) (Num (autoApprove thresholds));
            suggestion =
              \<lparr>s_id = o_new_id env, appName = app,
               suggestedClassification = classification result,
               s_confidence = confidence result, s_reasoning = reasoning result,
               s_factors = factors result, requiresApproval = needsReview,
               createdAt = o_now env\<rparr>
        in if needsReview then
             (case o_fault env InsertPending of
                Some e \<Rightarrow> (Inl e, st)
              | None \<Rightarrow>
                (case logAgentAction env AuditWrite
                        (st\<lparr>pending_classifications := pending_classifications st @
                             [\<lparr>p_id = o_new_id env, p_app_name = app, p_team_id = team_id user,
                               p_suggested = classification result,
                               p_confidence = o_decimal env (confidence result),
                               p_reasoning = reasoning result, p_status = ''pending'',
                               p_created_at = o_now env\<rparr>]\<rparr>)
                        ((classificationEntry app user (o_elapsed env))
                           \<lparr>response := Some (''Suggested: '' @ classification result
                                @ '' (confidence: '' @ o_num_text env (confidence result) @ '')''),
                            success := Some True\<rparr>) of
                   (Inl e, st') \<Rightarrow> (Inl e, st')
                 | (Inr _, st') \<Rightarrow> (Inr suggestion, st')))
           else
             (case o_fault env InsertRule of
                Some e \<Rightarrow> (Inl e, st)
              | None \<Rightarrow>
                (case logAgentAction env AuditWrite
                        (st\<lparr>classification_rules := classification_rules st @
                             [\<lparr>r_id = o_new_id env, r_app_name = app,
                               r_classification = classification result,
                               r_confidence = o_decimal env (confidence result),
                               r_reasoning = reasoning result,
                               r_created_at = o_now env\<rparr>]\<rparr>)
                        ((classificationEntry app user (o_elapsed env))
                           \<lparr>response := Some (''Auto-approved: '' @ classification result
                                @ '' (confidence: '' @ o_num_text env (confidence result) @ '')''),
                            success := Some True\<rparr>) of
                   (Inl e, st') \<Rightarrow> (Inl e, st')
                 | (Inr _, st') \<Rightarrow> (Inr suggestion, st')))))))))"

definition classifyNewApp ::
  "Outside \<Rightarrow> Store \<Rightarrow> string \<Rightarrow> AuthenticatedUser \<Rightarrow> (error + ClassificationSuggestion) \<times> Store" where
  \<comment> \<open>the \<open>catch\<close> block logs the failure and throws the error again\<close>
  "classifyNewApp env st app user =
     (case classifyNewApp_try env st app user of
        (Inr suggestion, st') \<Rightarrow> (Inr suggestion, st')
      | (Inl (Error m), st') \<Rightarrow>
          (case logAgentAction env AuditWriteOnError st'
                  ((classificationEntry app user (o_elapsed env))
                     \<lparr>success := Some False, errorMessage := Some m\<rparr>) of
             (Inl e, st'') \<Rightarrow> (Inl e, st'')
           | (Inr _, st'') \<Rightarrow> (Inl (Error m), st'')))"

definition no_rule_for :: "(string \<Rightarrow> string) \<Rightarrow> string \<Rightarrow> Store \<Rightarrow> bool" where
  \<comment> \<open>no classification rule has the application's name, compared as the database does:
      \<open>LOWER(app_name) = LOWER($1)\<close>\<close>
  "no_rule_for lower app st =
     (\<forall>r \<in> set (classification_rules st). lower (r_app_name r) \<noteq> lower app)"

text \<open>
  Example inputs: a user, a store with one rule, and two replies of the LLM. In the example
  the database lower-cases as JavaScript does on the code units of the model, the two
  confidences fit the column as they are, and no string is converted to a number.
\<close>

definition demo_user :: AuthenticatedUser where
  "demo_user = \<lparr>id' = ''u1'', email = ''ann@corp.io'', name' = ''Ann'', role = ''manager'',
                 team_id = ''t1''\<rparr>"

definition demo_store :: Store where
  "demo_store =
     \<lparr>classification_rules =
        [\<lparr>r_id = ''r1'', r_app_name = ''Slack'', r_classification = ''productive'',
          r_confidence = Num (95 / 100), r_reasoning = JStr ''team chat'', r_created_at = 0\<rparr>],
      pending_classifications = [], classification_feedback = [], agent_audit_log = []\<rparr>"

definition sure_reply :: string where
  \<open>sure_reply = ''{"classification":"productive","confidence":0.95}''\<close>

definition unsure_reply :: string where
  \<open>unsure_reply = ''{"classification":"neutral","confidence":0.6}''\<close>

definition demo_parse :: "string \<Rightarrow> json option" where
  \<comment> \<open>\<open>JSON.parse\<close> on the two example replies\<close>
  "demo_parse t =
     (if t = sure_reply then
        Some (JObj [(''classification'', JStr ''productive''), (''confidence'', JNum (Num (95 / 100)))])
      else if t = unsure_reply then
        Some (JObj [(''classification'', JStr ''neutral''), (''confidence'', JNum (Num (6 / 10)))])
      else None)"

definition demo_outside :: "string \<Rightarrow> Outside" where
  "demo_outside reply =
     \<lparr>o_fault = (\<lambda>s. None), o_lower = toLowerCase, o_decimal = (\<lambda>n. n),
      o_llm_reply = Inr reply, o_parse = demo_parse, o_number = (\<lambda>s. NaN),
      o_num_text = (\<lambda>n. if n = Num (95 / 100) then ''0.95'' else ''0.6''),
      o_new_id = ''n1'', o_now = 7, o_elapsed = 12\<rparr>"

section \<open>Chat agent (agents/chat/index.ts)\<close>

record DateRange =
  dr_start :: string
  dr_end :: string

record Filters =
  f_teams :: "string list option"
  f_users :: "string list option"
  f_projects :: "string list option"
  f_apps :: "string list option"
  f_dateRange :: "DateRange option"
  f_productivityRating :: "string list option"

record ParsedQuery =
  intent :: string
  entity :: "string option"
  metrics :: "string list"
  filters :: Filters
  groupBy :: "string list option"
  orderBy :: "string option"
  limit_rows :: "nat option"

record GeneratedSQL =
  g_sql :: string
  g_params :: "string list"
  g_description :: string

record ExplainedResponse =
  x_answer :: string
  x_dateRange :: "string option"

record Explanation =
  e_sql :: string
  e_rowCount :: nat
  e_dateRange :: string
  e_tablesAccessed :: "string list"

record ChatResponse =
  answer :: string
  explanation :: Explanation
  c_confidence :: rat
  isGeneralQuery :: "bool option"

definition shortConversational :: "string list" where
  "shortConversational = [''hi'', ''hello'', ''hey'', ''thanks'', ''thank you'', ''ok'', ''okay'',
                          ''yes'', ''no'', ''bye'']"

definition classifyQueryType :: "string \<Rightarrow> error + string \<Rightarrow> error + string" where
  \<comment> \<open>the second argument is the outcome of the call to the LLM, made unless the query has
      at most two words and contains a conversational word\<close>
  "classifyQueryType q reply =
     (if length (filter (\<lambda>c. c = CHR '' '') q) + 1 \<le> 2
         \<and> (\<exists>w \<in> set shortConversational. includes_str (trim (toLowerCase q)) w)
      then Inr ''general''
      else (case reply of
              Inl e \<Rightarrow> Inl e
            | Inr r \<Rightarrow>
                (let c = toLowerCase (trim r)
                 in if c = ''data'' \<or> c = ''general'' then Inr c else Inr ''data'')))"

definition calculateConfidence :: "ParsedQuery \<Rightarrow> nat \<Rightarrow> rat" where
  "calculateConfidence parsedQuery rowCnt =
     min (5 / 10
          + (if intent parsedQuery \<noteq> ''unknown'' then 2 / 10 else 0)
          + (if rowCnt > 0 then 2 / 10 else 0)
          + (if length (metrics parsedQuery) > 0 then 1 / 10 else 0)) 1"

definition executeQueryWithTimeout ::
  "bool \<Rightarrow> nat \<Rightarrow> 'row Database \<Rightarrow> string \<Rightarrow> string list \<Rightarrow> (error + 'row QueryResult) \<times> 'row Database" where
  \<comment> \<open>the race with the timer; the first argument says whether the timer fires first. A
      failed validation rejects at once and wins the race.\<close>
  "executeQueryWithTimeout timedOut elapsed db sql ps =
     (case executeQuery elapsed db sql ps of
        (r, db') \<Rightarrow>
          if valid (validateQuery sql) \<and> timedOut then (Inl (Error ''Query timeout''), db')
          else (r, db'))"

text \<open>
  The callees that talk to the LLM or read the clock enter the handler by their outcome:
  a value or the error they throw. The audit table is the one of the store; the analytics
  query goes to the database of the executor.
\<close>

datatype chat_site = AuditGeneral | AuditSuccess | AuditFailure

record 'row ChatOutside =
  h_fault :: "chat_site \<Rightarrow> error option"
  h_typeReply :: "error + string"
  h_general :: "error + string"
  h_parsed :: "error + ParsedQuery"
  h_generated :: "error + GeneratedSQL"
  h_timedOut :: bool
  h_explained :: "error + ExplainedResponse"
  h_elapsed :: nat

definition chatLog ::
  "'row ChatOutside \<Rightarrow> chat_site \<Rightarrow> Store \<Rightarrow> AuditLogEntry \<Rightarrow> (error + unit) \<times> Store" where
  \<comment> \<open>\<open>logAgentAction\<close> called from the chat handler\<close>
  "chatLog env place st entry =
     (case h_fault env place of
        Some e \<Rightarrow> (Inl e, st)
      | None \<Rightarrow> (Inr (), st\<lparr>agent_audit_log := agent_audit_log st @ [auditRow entry]\<rparr>))"

definition chatEntry :: "string \<Rightarrow> AuthenticatedUser \<Rightarrow> nat \<Rightarrow> AuditLogEntry" where
  "chatEntry q user ms =
     \<lparr>agentType = ''chat'', userId = id' user, queryText = q, response = None,
      sqlGenerated = None, dataAccessed = None, entryTimeMs = Some ms, success = None,
      errorMessage = None\<rparr>"

type_synonym chat_failure = "error \<times> string \<times> string list"
  \<comment> \<open>the error thrown, with the values of \<open>sqlGenerated\<close> and \<open>tablesAccessed\<close> at that point\<close>

definition handleChatQuery_try ::
  "'row ChatOutside \<Rightarrow> Store \<Rightarrow> 'row Database \<Rightarrow> string \<Rightarrow> AuthenticatedUser
     \<Rightarrow> (chat_failure + ChatResponse) \<times> Store \<times> 'row Database" where
  \<comment> \<open>the \<open>try\<close> block\<close>
  "handleChatQuery_try env st db q user =
    (case classifyQueryType q (h_typeReply env) of
       Inl e \<Rightarrow> (Inl (e, [], []), st, db)
     | Inr queryType \<Rightarrow>
       if queryType = ''general'' then
         (case h_general env of
            Inl e \<Rightarrow> (Inl (e, [], []), st, db)
          | Inr generalResponse \<Rightarrow>
              (case chatLog env AuditGeneral st
                      ((chatEntry q user (h_elapsed env))
                         \<lparr>response := Some generalResponse, dataAccessed := Some [],
                          success := Some True\<rparr>) of
                 (Inl e, st') \<Rightarrow> (Inl (e, [], []), st', db)
               | (Inr _, st') \<Rightarrow>
                   (Inr \<lparr>answer = generalResponse,
                         explanation = \<lparr>e_sql = ''N/A (general conversation)'', e_rowCount = 0,
                                        e_dateRange = ''N/A'', e_tablesAccessed = []\<rparr>,
                         c_confidence = 1, isGeneralQuery = Some True\<rparr>, st', db)))
       else
    (case h_parsed env of
       Inl e \<Rightarrow> (Inl (e, [], []), st, db)
     | Inr parsedQuery \<Rightarrow>
    (case h_generated env of
       Inl e \<Rightarrow> (Inl (e, [], []), st, db)
     | Inr generated \<Rightarrow>
       (let validation = validateQuery (g_sql generated)
        in if \<not> valid validation then
             (Inl (Error (''Invalid SQL: '' @ error_text (error validation)), g_sql generated, []),
              st, db)
           else
    (case executeQueryWithTimeout (h_timedOut env) (h_elapsed env) db (g_sql generated)
            (g_params generated) of
       (Inl e, db') \<Rightarrow> (Inl (e, g_sql generated, tablesAccessed validation), st, db')
     | (Inr result, db') \<Rightarrow>
    (case h_explained env of
       Inl e \<Rightarrow> (Inl (e, g_sql generated, tablesAccessed validation), st, db')
     | Inr explained \<Rightarrow>
        (case chatLog env AuditSuccess st
                ((chatEntry q user (h_elapsed env))
                   \<lparr>response := Some (x_answer explained),
                    sqlGenerated := Some (g_sql generated),
                    dataAccessed := Some (tablesAccessed validation),
                    success := Some True\<rparr>) of
           (Inl e, st') \<Rightarrow> (Inl (e, g_sql generated, tablesAccessed validation), st', db')
         | (Inr _, st') \<Rightarrow>
             (Inr \<lparr>answer = x_answer explained,
                   explanation =
                     \<lparr>e_sql = g_sql generated, e_rowCount = rowCount result,
                      e_dateRange = (case or_null (x_dateRange explained) of
                                       None \<Rightarrow> ''Not specified'' | Some d \<Rightarrow> d),
                      e_tablesAccessed = tablesAccessed validation\<rparr>,
                   c_confidence = calculateConfidence parsedQuery (rowCount result),
                   isGeneralQuery = None\<rparr>, st', db'))))))))"

definition failurePrefix :: string where
  "failurePrefix = ''I couldn'' @ [CHR 0x27] @ ''t process your query.''"

definition handleChatQuery ::
  "'row ChatOutside \<Rightarrow> Store \<Rightarrow> 'row Database \<Rightarrow> string \<Rightarrow> AuthenticatedUser
     \<Rightarrow> (error + ChatResponse) \<times> Store \<times> 'row Database" where
  \<comment> \<open>the \<open>catch\<close> block logs the failure and returns an error response\<close>
  "handleChatQuery env st db q user =
     (case handleChatQuery_try env st db q user of
        (Inr resp, st', db') \<Rightarrow> (Inr resp, st', db')
      | (Inl (Error m, sqlText, tables), st', db') \<Rightarrow>
          (case chatLog env AuditFailure st'
                  ((chatEntry q user (h_elapsed env))
                     \<lparr>sqlGenerated := or_null (Some sqlText), dataAccessed := Some tables,
                      success := Some False, errorMessage := Some m\<rparr>) of
             (Inl e, st'') \<Rightarrow> (Inl e, st'', db')
           | (Inr _, st'') \<Rightarrow>
               (Inr \<lparr>answer = failurePrefix @ '' '' @ m,
                     explanation =
                       \<lparr>e_sql = (if sqlText = [] then ''Not generated'' else sqlText),
                        e_rowCount = 0, e_dateRange = ''N/A'', e_tablesAccessed = []\<rparr>,
                     c_confidence = 0, isGeneralQuery = None\<rparr>, st'', db')))"

definition is_failure_response :: "string \<Rightarrow> ChatResponse \<Rightarrow> bool" where
  \<comment> \<open>the response of the \<open>catch\<close> block for an error with the given message\<close>
  "is_failure_response m resp =
     (answer resp = failurePrefix @ '' '' @ m \<and> startsWith (answer resp) failurePrefix
      \<and> c_confidence resp = 0 \<and> e_rowCount (explanation resp) = 0)"

definition demo_chat :: "unit ChatOutside" where
  \<comment> \<open>an example: the query is classified as a data query and the parser's LLM call fails\<close>
  "demo_chat =
     \<lparr>h_fault = (\<lambda>s. None), h_typeReply = Inr ''data'', h_general = Inr ''Hello!'',
      h_parsed = Inl (Error ''LLM unavailable''),
      h_generated = Inl (Error ''Failed to generate SQL query''), h_timedOut = False,
      h_explained = Inl (Error ''LLM unavailable''), h_elapsed = 3\<rparr>"

definition demo_db :: "unit Database" where
  "demo_db = \<lparr>run = (\<lambda>q a. Inr [()]), statements = []\<rparr>"

section \<open>Query-intent parser (agents/chat/parser.ts)\<close>

text \<open>
  The LLM is a function from the prompt to a reply or an error, with the list of the
  prompts it was sent: a call appends to the list. Only the user message of a prompt is
  recorded.
\<close>

record LLM =
  answers :: "string \<Rightarrow> error + string"
  asked :: "string list"

definition chat :: "LLM \<Rightarrow> string \<Rightarrow> (error + string) \<times> LLM" where
  "chat llm prompt = (answers llm prompt, llm\<lparr>asked := asked llm @ [prompt]\<rparr>)"

definition noFilters :: Filters where
  \<comment> \<open>\<open>filters: {}\<close>\<close>
  "noFilters = \<lparr>f_teams = None, f_users = None, f_projects = None, f_apps = None,
                 f_dateRange = None, f_productivityRating = None\<rparr>"

definition listOf :: "string \<Rightarrow> ParsedQuery" where
  \<comment> \<open>\<open>{ intent: 'list', entity, metrics: [], filters: {} }\<close>\<close>
  "listOf e = \<lparr>intent = ''list'', entity = Some e, metrics = [], filters = noFilters,
                groupBy = None, orderBy = None, limit_rows = None\<rparr>"

definition directParse :: "string \<Rightarrow> ParsedQuery option" where
  \<comment> \<open>the pattern matching for simple list queries; \<open>None\<close> when the code falls through to
      the LLM\<close>
  "directParse userQuery =
     (let lowerQuery = toLowerCase userQuery
      in if includes_str lowerQuery ''list'' \<or> includes_str lowerQuery ''show'' then
           (if includes_str lowerQuery ''project'' \<and> \<not> includes_str lowerQuery ''time'' then
              Some (listOf ''projects'')
            else if includes_str lowerQuery ''team'' \<and> \<not> includes_str lowerQuery ''member'' then
              Some (listOf ''teams'')
            else if includes_str lowerQuery ''user'' \<or> includes_str lowerQuery ''employee''
                    \<or> includes_str lowerQuery ''member'' then
              Some (listOf ''users'')
            else if includes_str lowerQuery ''classification'' \<or> includes_str lowerQuery ''rule'' then
              Some (listOf ''classification_rules'')
            else if includes_str lowerQuery ''app'' \<or> includes_str lowerQuery ''application'' then
              Some (listOf ''apps'')
            else None)
         else None)"

definition parsePrompt :: "string \<Rightarrow> string" where
  "parsePrompt userQuery = ''Parse this query: '' @ [CHR 0x22] @ userQuery @ [CHR 0x22]"

definition parseQuery ::
  "(string \<Rightarrow> error + string \<Rightarrow> error + ParsedQuery) \<Rightarrow> LLM \<Rightarrow> string
     \<Rightarrow> (error + ParsedQuery) \<times> LLM" where
  \<comment> \<open>the first argument stands for what the code does with the outcome of the LLM call
      (extracting and parsing the JSON, inferring the date range)\<close>
  "parseQuery afterLLM llm userQuery =
     (case directParse userQuery of
        Some parsed \<Rightarrow> (Inr parsed, llm)
      | None \<Rightarrow>
          (case chat llm (parsePrompt userQuery) of
             (reply, llm') \<Rightarrow> (afterLLM userQuery reply, llm')))"

definition mentions :: "string \<Rightarrow> string \<Rightarrow> bool" where
  \<comment> \<open>the query contains the word, in any case\<close>
  "mentions q w = includes_str (toLowerCase q) w"

definition entityKeywords :: "string list" where
  "entityKeywords = [''project'', ''team'', ''user'', ''employee'', ''member'', ''classification'',
                     ''rule'', ''app'', ''application'']"

definition unparsedReply :: "string \<Rightarrow> error + string \<Rightarrow> error + ParsedQuery" where
  \<comment> \<open>what \<open>parseQuery\<close> does after the LLM call when the reply is not JSON: an error of the
      call propagates, and the \<open>catch\<close> block returns the fallback\<close>
  "unparsedReply userQuery reply =
     (case reply of
        Inl e \<Rightarrow> Inl e
      | Inr r \<Rightarrow> Inr \<lparr>intent = ''unknown'', entity = None, metrics = [], filters = noFilters,
                       groupBy = None, orderBy = None, limit_rows = None\<rparr>)"

definition demo_llm :: LLM where
  "demo_llm = \<lparr>answers = (\<lambda>p. Inr ''I do not know''), asked = []\<rparr>"

section \<open>SQL generator: post-processing of the LLM's SQL (agents/chat/sqlGenerator.ts)\<close>

definition globalTables :: "string list" where
  "globalTables = [''projects'', ''teams'', ''classification_rules'', ''pending_classifications'']"

definition isGlobalQuery :: "string option \<Rightarrow> bool" where
  \<comment> \<open>the text is given, not empty, and names a global table after \<open>from\<close>; the tests with a
      character after the table name are instances of the first one\<close>
  "isGlobalQuery sqlText =
     (case sqlText of
        None \<Rightarrow> False
      | Some sql \<Rightarrow>
          sql \<noteq> [] \<and>
          (\<exists>t \<in> set globalTables.
              includes_str (toLowerCase sql) (''from '' @ t)
              \<or> includes_str (toLowerCase sql) (''from '' @ t @ '' '')
              \<or> includes_str (toLowerCase sql) (''from '' @ t @ '','')
              \<or> includes_str (toLowerCase sql) (''from '' @ t @ '')'')))"

definition getRBACFilter :: "AuthenticatedUser \<Rightarrow> string option \<Rightarrow> string" where
  "getRBACFilter user sqlText =
     (if isGlobalQuery sqlText then ''1=1''
      else if role user = ''admin'' then ''1=1''
      else if role user = ''manager'' then
        ''user_id IN (SELECT id FROM users WHERE team_id = '' @ [CHR 0x27] @ team_id user
          @ [CHR 0x27] @ '')''
      else if role user = ''employee'' then
        ''user_id = '' @ [CHR 0x27] @ id' user @ [CHR 0x27]
      else ''1=0'')"

definition whereRe :: regex where
  \<comment> \<open>\<open>/WHERE\s+/i\<close>\<close>
  "whereRe = Seq (Str ''WHERE'') (Plus (Ch CSpace))"

definition insertPoints :: "regex list" where
  \<comment> \<open>\<open>[/GROUP BY/i, /ORDER BY/i, /LIMIT/i]\<close>\<close>
  "insertPoints = [Str ''GROUP BY'', Str ''ORDER BY'', Str ''LIMIT'']"

fun insertBefore :: "regex list \<Rightarrow> string \<Rightarrow> string \<Rightarrow> string" where
  \<comment> \<open>the loop over the insert points, and the append when none is found\<close>
  "insertBefore [] rbacFilter sql = trimEnd sql @ '' WHERE '' @ rbacFilter"
| "insertBefore (point # points) rbacFilter sql =
     (if re_test True point sql
      then replace_first True point (''WHERE '' @ rbacFilter @ '' $&'') sql
      else insertBefore points rbacFilter sql)"

definition applyRBAC :: "string \<Rightarrow> string \<Rightarrow> string" where
  \<comment> \<open>the placements of the filter: at the placeholder, after WHERE, or in a new WHERE\<close>
  "applyRBAC rbacFilter sql =
     (if includes_str sql ''{RBAC_FILTER}'' then replace_str ''{RBAC_FILTER}'' rbacFilter sql
      else if re_test True whereRe sql
      then replace_first True whereRe (''WHERE '' @ rbacFilter @ '' AND '') sql
      else insertBefore insertPoints rbacFilter sql)"

definition andAndRe :: regex where
  \<comment> \<open>\<open>/AND\s+AND/gi\<close>\<close>
  "andAndRe = seqs [Str ''AND'', Plus (Ch CSpace), Str ''AND'']"

definition whereAndRe :: regex where
  \<comment> \<open>\<open>/WHERE\s+AND/gi\<close>\<close>
  "whereAndRe = seqs [Str ''WHERE'', Plus (Ch CSpace), Str ''AND'']"

definition sumRatioRe :: regex where
  \<comment> \<open>\<open>/SUM\((\w+)\)\s*\/\s*NULLIF\(SUM\((\w+)\),\s*0\)/gi\<close>\<close>
  "sumRatioRe =
     seqs [Str ''SUM('', Group 1 (Plus (Ch CWord)), Str '')'', Star (Ch CSpace), Str ''/'',
           Star (Ch CSpace), Str ''NULLIF(SUM('', Group 2 (Plus (Ch CWord)), Str ''),'',
           Star (Ch CSpace), Str ''0)'']"

definition coalesceRatioRe :: regex where
  \<comment> \<open>\<open>/COALESCE\(SUM\((\w+)\)\s*\/\s*NULLIF\(SUM\((\w+)\),\s*0\),\s*0\)/gi\<close>\<close>
  "coalesceRatioRe =
     seqs [Str ''COALESCE(SUM('', Group 1 (Plus (Ch CWord)), Str '')'', Star (Ch CSpace),
           Str ''/'', Star (Ch CSpace), Str ''NULLIF(SUM('', Group 2 (Plus (Ch CWord)),
           Str ''),'', Star (Ch CSpace), Str ''0),'', Star (Ch CSpace), Str ''0)'']"

definition floatRe :: regex where
  \<comment> \<open>\<open>/::float\s*\//gi\<close>\<close>
  "floatRe = seqs [Str ''::float'', Star (Ch CSpace), Str ''/'']"

definition roundRe :: regex where
  \<comment> \<open>\<open>/ROUND\(\s*\(([^)]+)\)\s*,\s*(\d+)\)/gi\<close>\<close>
  "roundRe =
     seqs [Str ''ROUND('', Star (Ch CSpace), Str ''('', Group 1 (Plus (Ch (CNot CHR '')''))),
           Str '')'', Star (Ch CSpace), Str '','', Star (Ch CSpace), Group 2 (Plus (Ch CDigit)),
           Str '')'']"

definition roundOpenRe :: regex where
  \<comment> \<open>\<open>/ROUND\(\s*\(([^)]+)\s*,\s*(\d+)\)/gi\<close>\<close>
  "roundOpenRe =
     seqs [Str ''ROUND('', Star (Ch CSpace), Str ''('', Group 1 (Plus (Ch (CNot CHR '')''))),
           Star (Ch CSpace), Str '','', Star (Ch CSpace), Group 2 (Plus (Ch CDigit)),
           Str '')'']"

definition cleanAnds :: "string \<Rightarrow> string" where
  \<comment> \<open>the clean-up of double ANDs\<close>
  "cleanAnds sql = replace_all True whereAndRe ''WHERE'' (replace_all True andAndRe ''AND'' sql)"

definition fixDivisions :: "string \<Rightarrow> string" where
  "fixDivisions sql =
     replace_all True floatRe ''::numeric /''
       (replace_all True coalesceRatioRe ''COALESCE(SUM($1)::numeric / NULLIF(SUM($2), 0), 0)''
          (replace_all True sumRatioRe ''SUM($1)::numeric / NULLIF(SUM($2), 0)'' sql))"

definition fixRounds :: "string \<Rightarrow> string" where
  "fixRounds sql =
     replace_all True roundOpenRe ''ROUND(($1), $2)''
       (replace_all True roundRe ''ROUND(($1), $2)'' sql)"

definition postProcess :: "AuthenticatedUser \<Rightarrow> string \<Rightarrow> string" where
  \<comment> \<open>what \<open>generateSQL\<close> does to the SQL text of the LLM's reply\<close>
  "postProcess user sql =
     fixRounds (fixDivisions (cleanAnds (applyRBAC (getRBACFilter user (Some sql)) sql)))"

section \<open>Dates (the JavaScript \<open>Date\<close> as the parser uses it)\<close>

text \<open>
  A \<open>Date\<close> is modelled by its fields in local time: year, month (0 to 11), day of the
  month and milliseconds since local midnight. The local time zone is a fixed offset from
  UTC in minutes (positive to the east), a parameter of the functions that print a date
  with \<open>toISOString\<close>, which prints the UTC date. Daylight saving time is not modelled.
\<close>

record JsDate =
  d_year :: int
  d_month :: nat
  d_day :: nat
  d_ms :: nat

definition is_leap :: "int \<Rightarrow> bool" where
  "is_leap y = (y mod 4 = 0 \<and> (y mod 100 \<noteq> 0 \<or> y mod 400 = 0))"

definition days_in_month :: "int \<Rightarrow> nat \<Rightarrow> nat" where
  "days_in_month y m =
     (if m = 1 then (if is_leap y then 29 else 28)
      else if m = 3 \<or> m = 5 \<or> m = 8 \<or> m = 10 then 30 else 31)"

definition valid_date :: "JsDate \<Rightarrow> bool" where
  "valid_date d = (d_month d < 12 \<and> 1 \<le> d_day d \<and> d_day d \<le> days_in_month (d_year d) (d_month d)
                   \<and> d_ms d < 86400000)"

definition next_day :: "JsDate \<Rightarrow> JsDate" where
  "next_day d =
     (if d_day d < days_in_month (d_year d) (d_month d) then d\<lparr>d_day := d_day d + 1\<rparr>
      else if d_month d < 11 then d\<lparr>d_month := d_month d + 1, d_day := 1\<rparr>
      else d\<lparr>d_year := d_year d + 1, d_month := 0, d_day := 1\<rparr>)"

definition prev_day :: "JsDate \<Rightarrow> JsDate" where
  "prev_day d =
     (if 1 < d_day d then d\<lparr>d_day := d_day d - 1\<rparr>
      else if 0 < d_month d
      then d\<lparr>d_month := d_month d - 1, d_day := days_in_month (d_year d) (d_month d - 1)\<rparr>
      else d\<lparr>d_year := d_year d - 1, d_month := 11, d_day := 31\<rparr>)"

primrec iter :: "nat \<Rightarrow> ('a \<Rightarrow> 'a) \<Rightarrow> 'a \<Rightarrow> 'a" where
  "iter 0 f x = x"
| "iter (Suc n) f x = iter n f (f x)"

definition add_days :: "int \<Rightarrow> JsDate \<Rightarrow> JsDate" where
  \<comment> \<open>the date \<open>k\<close> days later, or earlier for a negative \<open>k\<close>\<close>
  "add_days k d = (if 0 \<le> k then iter (nat k) next_day d else iter (nat (- k)) prev_day d)"

definition first_of :: "int \<Rightarrow> int \<Rightarrow> nat \<Rightarrow> JsDate" where
  \<comment> \<open>the first day of a month given by a year and any integer month index: the index is
      reduced modulo 12 and the year adjusted\<close>
  "first_of y m ms = \<lparr>d_year = y + m div 12, d_month = nat (m mod 12), d_day = 1, d_ms = ms\<rparr>"

definition mkDate :: "int \<Rightarrow> int \<Rightarrow> int \<Rightarrow> JsDate" where
  \<comment> \<open>\<open>new Date(y, m, d)\<close>, at local midnight\<close>
  "mkDate y m d = add_days (d - 1) (first_of y m 0)"

definition setDate :: "int \<Rightarrow> JsDate \<Rightarrow> JsDate" where
  "setDate n d = add_days (n - 1) (first_of (d_year d) (int (d_month d)) (d_ms d))"

definition setMonth :: "int \<Rightarrow> JsDate \<Rightarrow> JsDate" where
  "setMonth m d = add_days (int (d_day d) - 1) (first_of (d_year d) m (d_ms d))"

definition setFullYear :: "int \<Rightarrow> JsDate \<Rightarrow> JsDate" where
  "setFullYear y d = add_days (int (d_day d) - 1) (first_of y (int (d_month d)) (d_ms d))"

definition setHours :: "nat \<Rightarrow> nat \<Rightarrow> nat \<Rightarrow> nat \<Rightarrow> JsDate \<Rightarrow> JsDate" where
  \<comment> \<open>for a time of day within the day\<close>
  "setHours h m s ms d = d\<lparr>d_ms := ((h * 60 + m) * 60 + s) * 1000 + ms\<rparr>"

definition days_before_year :: "int \<Rightarrow> int" where
  \<comment> \<open>the days from 1 January 1970 to 1 January of the year\<close>
  "days_before_year y =
     365 * (y - 1970) + ((y - 1) div 4 - 492) - ((y - 1) div 100 - 19) + ((y - 1) div 400 - 4)"

definition days_before_month :: "int \<Rightarrow> nat \<Rightarrow> nat" where
  \<comment> \<open>the days of the year before the first of the month\<close>
  "days_before_month y m =
     [0, 31, 59, 90, 120, 151, 181, 212, 243, 273, 304, 334] ! m
     + (if 2 \<le> m \<and> is_leap y then 1 else 0)"

definition day_number :: "JsDate \<Rightarrow> int" where
  \<comment> \<open>the days since 1 January 1970\<close>
  "day_number d =
     days_before_year (d_year d) + int (days_before_month (d_year d) (d_month d)) + int (d_day d) - 1"

definition getDay :: "JsDate \<Rightarrow> nat" where
  \<comment> \<open>the day of the week, 0 for Sunday; 1 January 1970 was a Thursday\<close>
  "getDay d = nat ((day_number d + 4) mod 7)"

definition show_int :: "int \<Rightarrow> string" where
  "show_int i = (if i < 0 then ''-'' @ show_nat (nat (- i)) else show_nat (nat i))"

definition padStart :: "nat \<Rightarrow> string \<Rightarrow> string" where
  \<comment> \<open>\<open>s.padStart(n, '0')\<close>\<close>
  "padStart n s = replicate (n - length s) (CHR ''0'') @ s"

definition localDateText :: "JsDate \<Rightarrow> string" where
  \<comment> \<open>the template the code uses with the local getters:
      \<open>`${d.getFullYear()}-${String(d.getMonth() + 1).padStart(2, "0")}-${String(d.getDate()).padStart(2, "0")}`\<close>\<close>
  "localDateText d =
     show_int (d_year d) @ ''-'' @ padStart 2 (show_nat (d_month d + 1)) @ ''-''
       @ padStart 2 (show_nat (d_day d))"

definition localMonthStartText :: "JsDate \<Rightarrow> string" where
  \<comment> \<open>the same template ending in the literal \<open>-01\<close>\<close>
  "localMonthStartText d =
     show_int (d_year d) @ ''-'' @ padStart 2 (show_nat (d_month d + 1)) @ ''-01''"

definition toUTC :: "int \<Rightarrow> JsDate \<Rightarrow> JsDate" where
  \<comment> \<open>the UTC fields of a local date, for an offset of less than a day\<close>
  "toUTC tz d =
     (let t = int (d_ms d) - tz * 60000
      in if t < 0 then (prev_day d)\<lparr>d_ms := nat (t + 86400000)\<rparr>
         else if 86400000 \<le> t then (next_day d)\<lparr>d_ms := nat (t - 86400000)\<rparr>
         else d\<lparr>d_ms := nat t\<rparr>)"

definition isoDate :: "int \<Rightarrow> JsDate \<Rightarrow> string" where
  \<comment> \<open>\<open>d.toISOString().split("T")[0]\<close>, for a year from 0 to 9999\<close>
  "isoDate tz d =
     (let u = toUTC tz d
      in padStart 4 (show_int (d_year u)) @ ''-'' @ padStart 2 (show_nat (d_month u + 1)) @ ''-''
           @ padStart 2 (show_nat (d_day u)))"

section \<open>Relative dates (agents/chat/parser.ts)\<close>

definition monthNames :: "string list" where
  "monthNames = [''january'', ''february'', ''march'', ''april'', ''may'', ''june'', ''july'',
                 ''august'', ''september'', ''october'', ''november'', ''december'']"

fun findIndex :: "('a \<Rightarrow> bool) \<Rightarrow> 'a list \<Rightarrow> nat option" where
  \<comment> \<open>\<open>None\<close> stands for the result -1\<close>
  "findIndex P [] = None"
| "findIndex P (x # xs) = (if P x then Some 0 else map_option Suc (findIndex P xs))"

definition fullMonths :: "int \<Rightarrow> int \<Rightarrow> int \<Rightarrow> DateRange" where
  \<comment> \<open>from \<open>new Date(year, m1, 1)\<close> to \<open>new Date(year, m2 + 1, 0)\<close>, printed with the local
      getters\<close>
  "fullMonths year m1 m2 =
     \<lparr>dr_start = localMonthStartText (mkDate year m1 1),
      dr_end = localDateText (mkDate year (m2 + 1) 0)\<rparr>"

definition last30 :: "int \<Rightarrow> JsDate \<Rightarrow> DateRange" where
  \<comment> \<open>the default: the last 30 days\<close>
  "last30 tz today =
     \<lparr>dr_start = isoDate tz (setHours 0 0 0 0 (setDate (int (d_day today) - 30) today)),
      dr_end = isoDate tz today\<rparr>"

definition fromToRe :: regex where
  \<comment> \<open>\<open>/from\s+(.+?)\s+to\s+(.+)/\<close>\<close>
  "fromToRe =
     seqs [Str ''from'', Plus (Ch CSpace), Group 1 (PlusLazy (Ch CAny)), Plus (Ch CSpace),
           Str ''to'', Plus (Ch CSpace), Group 2 (Plus (Ch CAny))]"

definition parseFromToRange ::
  "(string \<Rightarrow> string option) \<Rightarrow> int \<Rightarrow> string \<Rightarrow> JsDate \<Rightarrow> error + DateRange" where
  \<comment> \<open>the first argument stands for \<open>new Date(text)\<close>: the ISO date of the parsed text, or
      \<open>None\<close> for an invalid date\<close>
  "parseFromToRange parseDate tz relative today =
     (let lower = toLowerCase relative
      in case re_exec False fromToRe lower of
           None \<Rightarrow> Inl (Error (''Could not parse date range: '' @ relative))
         | Some (i, l, caps) \<Rightarrow>
             (let fromPart = trim (cap caps 1); toPart = trim (cap caps 2)
              in if includes_str fromPart ''last month'' \<and> includes_str toPart ''this month'' then
                   Inr \<lparr>dr_start = localMonthStartText
                                      (mkDate (d_year today) (int (d_month today) - 1) 1),
                        dr_end = isoDate tz today\<rparr>
                 else
                   (case (findIndex (\<lambda>m. includes_str fromPart m) monthNames,
                          findIndex (\<lambda>m. includes_str toPart m) monthNames) of
                      (Some fromMonthIndex, Some toMonthIndex) \<Rightarrow>
                        Inr (fullMonths (d_year today) (int fromMonthIndex) (int toMonthIndex))
                    | _ \<Rightarrow>
                        (case (parseDate fromPart, parseDate toPart) of
                           (Some a, Some b) \<Rightarrow> Inr \<lparr>dr_start = a, dr_end = b\<rparr>
                         | _ \<Rightarrow> Inr (last30 tz today)))))"

definition quarterRe :: regex where
  \<comment> \<open>\<open>/(?:q|quarter)\s*(\d+)/i\<close>\<close>
  "quarterRe = seqs [Alt (Str ''q'') (Str ''quarter''), Star (Ch CSpace), Group 1 (Plus (Ch CDigit))]"

definition numberRe :: regex where
  \<comment> \<open>\<open>/(\d+)\s*(month|week|day|year)/\<close>\<close>
  "numberRe =
     seqs [Group 1 (Plus (Ch CDigit)), Star (Ch CSpace),
           Group 2 (alts [Str ''month'', Str ''week'', Str ''day'', Str ''year''])]"

definition lastQuarter :: "JsDate \<Rightarrow> DateRange" where
  "lastQuarter today =
     (let currentMonth = d_month today; currentYear = d_year today
      in if currentMonth \<le> 2 then fullMonths (currentYear - 1) 9 11
         else if 3 \<le> currentMonth \<and> currentMonth \<le> 5 then fullMonths currentYear 0 2
         else if 6 \<le> currentMonth \<and> currentMonth \<le> 8 then fullMonths currentYear 3 5
         else fullMonths currentYear 6 8)"

definition thisQuarterStart :: "JsDate \<Rightarrow> int" where
  "thisQuarterStart today =
     (let currentMonth = d_month today
      in if currentMonth \<le> 2 then 0
         else if 3 \<le> currentMonth \<and> currentMonth \<le> 5 then 3
         else if 6 \<le> currentMonth \<and> currentMonth \<le> 8 then 6
         else 9)"

definition lastWeek :: "int \<Rightarrow> JsDate \<Rightarrow> DateRange" where
  "lastWeek tz today =
     (let dayOfWeek = getDay today;
          daysToLastMonday = (if dayOfWeek = 0 then 6 else int dayOfWeek - 1);
          lastMonday = setDate (int (d_day today) - daysToLastMonday - 7) today;
          lastSunday = setHours 23 59 59 999 (setDate (int (d_day lastMonday) + 6) lastMonday)
      in \<lparr>dr_start = isoDate tz lastMonday, dr_end = isoDate tz lastSunday\<rparr>)"

definition thisWeek :: "int \<Rightarrow> JsDate \<Rightarrow> DateRange" where
  "thisWeek tz today =
     (let dayOfWeek = getDay today;
          daysToMonday = (if dayOfWeek = 0 then 6 else int dayOfWeek - 1);
          thisMonday = setHours 0 0 0 0 (setDate (int (d_day today) - daysToMonday) today)
      in \<lparr>dr_start = isoDate tz thisMonday, dr_end = isoDate tz today\<rparr>)"

definition agoRange :: "int \<Rightarrow> JsDate \<Rightarrow> nat \<Rightarrow> string \<Rightarrow> DateRange" where
  \<comment> \<open>the last \<open>n\<close> months, weeks, days or years\<close>
  "agoRange tz today n unit =
     (let from = (if unit = ''month'' then setMonth (int (d_month today) - int n) today
                  else if unit = ''week'' then setDate (int (d_day today) - int n * 7) today
                  else if unit = ''day'' then setDate (int (d_day today) - int n) today
                  else if unit = ''year'' then setFullYear (d_year today - int n) today
                  else today)
      in \<lparr>dr_start = isoDate tz (setHours 0 0 0 0 from), dr_end = isoDate tz today\<rparr>)"

definition parseRelativeDate ::
  "(string \<Rightarrow> string option) \<Rightarrow> int \<Rightarrow> JsDate \<Rightarrow> string \<Rightarrow> error + DateRange" where
  \<comment> \<open>the third argument is the current time, \<open>new Date()\<close>\<close>
  "parseRelativeDate parseDate tz now relative =
     (let today = setHours 23 59 59 999 now;
          lower = trim (toLowerCase relative)
      in if includes_str lower ''from'' \<and> includes_str lower ''to'' then
           parseFromToRange parseDate tz relative today
         else if lower = ''last month'' \<or> lower = ''previous month'' then
           Inr \<lparr>dr_start = localMonthStartText (mkDate (d_year today) (int (d_month today) - 1) 1),
                dr_end = localDateText (mkDate (d_year today) (int (d_month today)) 0)\<rparr>
         else if lower = ''this month'' \<or> lower = ''current month'' then
           Inr \<lparr>dr_start = localMonthStartText (mkDate (d_year today) (int (d_month today)) 1),
                dr_end = isoDate tz today\<rparr>
         else if lower = ''last week'' \<or> lower = ''previous week'' then Inr (lastWeek tz today)
         else if lower = ''this week'' \<or> lower = ''current week'' then Inr (thisWeek tz today)
         else if lower = ''last quarter'' \<or> lower = ''previous quarter'' then
           Inr (lastQuarter today)
         else if lower = ''this quarter'' \<or> lower = ''current quarter'' then
           Inr \<lparr>dr_start = localMonthStartText (mkDate (d_year today) (thisQuarterStart today) 1),
                dr_end = isoDate tz today\<rparr>
         else if lower = ''last year'' \<or> lower = ''previous year'' then
           Inr \<lparr>dr_start = show_int (d_year today - 1) @ ''-01-01'',
                dr_end = show_int (d_year today - 1) @ ''-12-31''\<rparr>
         else if lower = ''this year'' \<or> lower = ''current year'' then
           Inr \<lparr>dr_start = show_int (d_year today) @ ''-01-01'', dr_end = isoDate tz today\<rparr>
         else
           (case (case re_exec True quarterRe lower of
                    None \<Rightarrow> None
                  | Some (i, l, caps) \<Rightarrow>
                      if 1 \<le> read_nat (cap caps 1) \<and> read_nat (cap caps 1) \<le> 4
                      then Some (read_nat (cap caps 1)) else None) of
              Some quarterNum \<Rightarrow>
                (let currentQuarter = d_month today div 3 + 1;
                     year = (if quarterNum > currentQuarter then d_year today - 1 else d_year today);
                     quarterStartMonth = (int quarterNum - 1) * 3
                 in Inr (fullMonths year quarterStartMonth (quarterStartMonth + 2)))
            | None \<Rightarrow>
           (case re_exec False numberRe lower of
              Some (i, l, caps) \<Rightarrow> Inr (agoRange tz today (read_nat (cap caps 1)) (cap caps 2))
            | None \<Rightarrow>
           (case findIndex (\<lambda>month. lower = month \<or> includes_str lower month) monthNames of
              Some monthIndex \<Rightarrow>
                (let year = (if monthIndex > d_month today then d_year today - 1 else d_year today)
                 in Inr (fullMonths year (int monthIndex) (int monthIndex)))
            | None \<Rightarrow> Inr (last30 tz today)))))"

record DateContext =
  ctx_today :: string
  ctx_yesterday :: string
  lastWeekStart :: string
  lastWeekEnd :: string
  thisWeekStart :: string
  lastMonthStart :: string
  lastMonthEnd :: string
  last30Days :: string
  last7Days :: string

definition getDateContext :: "int \<Rightarrow> JsDate \<Rightarrow> DateContext" where
  \<comment> \<open>\<open>formatDate\<close> is \<open>toISOString().split('T')[0]\<close>\<close>
  "getDateContext tz now =
     (let today = mkDate (d_year now) (int (d_month now)) (int (d_day now));
          lastWeekEnd' = setDate (int (d_day today) - int (getDay today)) today;
          lastWeekStart' = setDate (int (d_day lastWeekEnd') - 6) lastWeekEnd'
      in \<lparr>ctx_today = isoDate tz today,
          ctx_yesterday = isoDate tz (setDate (int (d_day today) - 1) today),
          lastWeekStart = isoDate tz lastWeekStart',
          lastWeekEnd = isoDate tz lastWeekEnd',
          thisWeekStart = isoDate tz (setDate (int (d_day today) - int (getDay today) + 1) today),
          lastMonthStart = isoDate tz (mkDate (d_year today) (int (d_month today) - 1) 1),
          lastMonthEnd = isoDate tz (mkDate (d_year today) (int (d_month today)) 0),
          last30Days = isoDate tz (setDate (int (d_day today) - 30) today),
          last7Days = isoDate tz (setDate (int (d_day today) - 7) today)\<rparr>)"

definition unitRe :: regex where
  \<comment> \<open>\<open>(?:month|week|day|year)\<close>\<close>
  "unitRe = alts [Str ''month'', Str ''week'', Str ''day'', Str ''year'']"

definition relativeRe :: regex where
  \<comment> \<open>the expression of \<open>extractDateRange\<close>:
      \<open>(?:last|this|previous|current|from\s+.+?\s+to)\s+(?:month|week|quarter|year|\d+\s+(?:month|week|day|year)s?|(?:january|...|december)|q\d+|quarter\s+\d+)\<close>,
      with the flags \<open>gi\<close>\<close>
  "relativeRe =
     seqs [alts [Str ''last'', Str ''this'', Str ''previous'', Str ''current'',
                 seqs [Str ''from'', Plus (Ch CSpace), PlusLazy (Ch CAny), Plus (Ch CSpace), Str ''to'']],
           Plus (Ch CSpace),
           alts [Str ''month'', Str ''week'', Str ''quarter'', Str ''year'',
                 seqs [Plus (Ch CDigit), Plus (Ch CSpace), unitRe, Opt (Str ''s'')],
                 alts (map Str monthNames),
                 Seq (Str ''q'') (Plus (Ch CDigit)),
                 seqs [Str ''quarter'', Plus (Ch CSpace), Plus (Ch CDigit)]]]"

definition extractDateRange ::
  "(string \<Rightarrow> string option) \<Rightarrow> int \<Rightarrow> JsDate \<Rightarrow> string \<Rightarrow> DateRange" where
  "extractDateRange parseDate tz now q =
     (let lowerQuery = toLowerCase q; dateCtx = getDateContext tz now
      in if includes_str lowerQuery ''last week'' \<or> includes_str lowerQuery ''past week'' then
           \<lparr>dr_start = lastWeekStart dateCtx, dr_end = lastWeekEnd dateCtx\<rparr>
         else if includes_str lowerQuery ''this week'' then
           \<lparr>dr_start = thisWeekStart dateCtx, dr_end = ctx_today dateCtx\<rparr>
         else if includes_str lowerQuery ''last month'' \<or> includes_str lowerQuery ''past month'' then
           \<lparr>dr_start = lastMonthStart dateCtx, dr_end = lastMonthEnd dateCtx\<rparr>
         else if includes_str lowerQuery ''yesterday'' then
           \<lparr>dr_start = ctx_yesterday dateCtx, dr_end = ctx_yesterday dateCtx\<rparr>
         else if includes_str lowerQuery ''today'' then
           \<lparr>dr_start = ctx_today dateCtx, dr_end = ctx_today dateCtx\<rparr>
         else if includes_str lowerQuery ''last 7 days'' \<or> includes_str lowerQuery ''past 7 days'' then
           \<lparr>dr_start = last7Days dateCtx, dr_end = ctx_today dateCtx\<rparr>
         else if includes_str lowerQuery ''last 30 days'' \<or> includes_str lowerQuery ''past 30 days'' then
           \<lparr>dr_start = last30Days dateCtx, dr_end = ctx_today dateCtx\<rparr>
         else
           (case (case re_exec True relativeRe lowerQuery of
                    None \<Rightarrow> None
                  | Some (i, l, caps) \<Rightarrow>
                      (case parseRelativeDate parseDate tz now (trim (take l (drop i lowerQuery))) of
                         Inl e \<Rightarrow> None
                       | Inr r \<Rightarrow> Some r)) of
              Some r \<Rightarrow> r
            | None \<Rightarrow> \<lparr>dr_start = last30Days dateCtx, dr_end = ctx_today dateCtx\<rparr>))"

text \<open>
  Example inputs: a text that \<open>new Date\<close> does not parse, and two moments, 10 o'clock local
  time on Sunday 1 November 2026 and on Tuesday 3 November 2026.
\<close>

definition noDate :: "string \<Rightarrow> string option" where
  "noDate s = None"

definition sunday :: JsDate where
  "sunday = \<lparr>d_year = 2026, d_month = 10, d_day = 1, d_ms = 36000000\<rparr>"

definition tuesday :: JsDate where
  "tuesday = \<lparr>d_year = 2026, d_month = 10, d_day = 3, d_ms = 36000000\<rparr>"

section \<open>Properties\<close>

subsection \<open>Decimal printing\<close>

lemma below_ten: "d < 10 \<Longrightarrow> d \<in> {0, 1, 2, 3, 4, 5, 6, 7, 8, 9 :: nat}"
  by auto

lemma digit_val_digit_char: "d < 10 \<Longrightarrow> digit_val (digit_char d) = d"
  by (drule below_ten) (auto simp: digit_val_def digit_char_def)

lemma is_digit_digit_char: "d < 10 \<Longrightarrow> is_digit (digit_char d)"
  by (drule below_ten) (auto simp: is_digit_def digit_char_def)

lemma read_nat_snoc: "read_nat (s @ [c]) = 10 * read_nat s + digit_val c"
  by (simp add: read_nat_def)

lemma read_show_nat: "read_nat (show_nat n) = n"
proof (induction n rule: show_nat.induct)
  case (1 n)
  show ?case
  proof (cases "n < 10")
    case True
    then show ?thesis
      by (subst show_nat.simps) (simp add: read_nat_def digit_val_digit_char)
  next
    case False
    have "read_nat (show_nat n) = 10 * read_nat (show_nat (n div 10)) + digit_val (digit_char (n mod 10))"
      using False by (subst show_nat.simps) (simp add: read_nat_snoc)
    also have "\<dots> = 10 * (n div 10) + n mod 10"
      using "1.IH" False by (simp add: digit_val_digit_char)
    finally show ?thesis by simp
  qed
qed

lemma show_nat_digits: "\<forall>c \<in> set (show_nat n). is_digit c"
proof (induction n rule: show_nat.induct)
  case (1 n)
  note d = is_digit_digit_char
  show ?case
  proof (cases "n < 10")
    case True
    then show ?thesis by (subst show_nat.simps) (simp add: d)
  next
    case False
    then show ?thesis using "1.IH" by (subst show_nat.simps) (simp add: d)
  qed
qed

subsection \<open>The access filter\<close>

text \<open>
  Claim C2. For every user and parameter offset, \<open>getRBACFilters\<close> returns for an admin
  the predicates \<open>1=1\<close> and \<open>1=1\<close> with no parameter; for a manager a user filter that
  restricts \<open>user_id\<close> to the users of the manager's team and a team filter on the team,
  both with the placeholder numbered offset + 1, and the team id as the only parameter;
  for an employee the user filter \<open>user_id = $(offset + 1)\<close> with the user's id as the only
  parameter; for any other role it throws. The placeholder number is printed in decimal.
\<close>

theorem getRBACFilters_by_role:
  "(role u = ''admin'' \<longrightarrow>
      getRBACFilters u off = Inr \<lparr>userFilter = ''1=1'', teamFilter = ''1=1'', params = []\<rparr>)
   \<and> (role u = ''manager'' \<longrightarrow>
      (\<exists>f. getRBACFilters u off = Inr f
         \<and> userFilter f = ''user_id IN (SELECT id FROM users WHERE team_id = $'' @ show_nat (off + 1) @ '')''
         \<and> teamFilter f = ''team_id = $'' @ show_nat (off + 1)
         \<and> params f = [team_id u]))
   \<and> (role u = ''employee'' \<longrightarrow>
      (\<exists>f. getRBACFilters u off = Inr f
         \<and> userFilter f = ''user_id = $'' @ show_nat (off + 1)
         \<and> params f = [id' u]))
   \<and> (role u \<notin> {''admin'', ''manager'', ''employee''} \<longrightarrow>
      getRBACFilters u off = Inl (Error (''Unknown role: '' @ role u)))
   \<and> read_nat (show_nat (off + 1)) = off + 1"
  by (simp add: getRBACFilters_def read_show_nat)

theorem getRBACFilters_by_role_witness:
  "getRBACFilters \<lparr>id' = ''u7'', email = ''m@x.io'', name' = ''Mo'', role = ''manager'', team_id = ''t3''\<rparr> 2
     = Inr \<lparr>userFilter = ''user_id IN (SELECT id FROM users WHERE team_id = $3)'',
            teamFilter = ''team_id = $3'', params = [''t3'']\<rparr>
   \<and> getRBACFilters \<lparr>id' = ''u7'', email = ''m@x.io'', name' = ''Mo'', role = ''employee'', team_id = ''t3''\<rparr> 11
     = Inr \<lparr>userFilter = ''user_id = $12'', teamFilter = ''team_id = $12'', params = [''u7'']\<rparr>
   \<and> getRBACFilters \<lparr>id' = ''u7'', email = ''m@x.io'', name' = ''Mo'', role = ''admin'', team_id = ''t3''\<rparr> 0
     = Inr \<lparr>userFilter = ''1=1'', teamFilter = ''1=1'', params = []\<rparr>
   \<and> getRBACFilters \<lparr>id' = ''u7'', email = ''m@x.io'', name' = ''Mo'', role = ''guest'', team_id = ''t3''\<rparr> 0
     = Inl (Error ''Unknown role: guest'')"
  using getRBACFilters_by_role [of "\<lparr>id' = ''u7'', email = ''m@x.io'', name' = ''Mo'', role = ''manager'', team_id = ''t3''\<rparr>" 2]
        getRBACFilters_by_role [of "\<lparr>id' = ''u7'', email = ''m@x.io'', name' = ''Mo'', role = ''employee'', team_id = ''t3''\<rparr>" 11]
        getRBACFilters_by_role [of "\<lparr>id' = ''u7'', email = ''m@x.io'', name' = ''Mo'', role = ''admin'', team_id = ''t3''\<rparr>" 0]
        getRBACFilters_by_role [of "\<lparr>id' = ''u7'', email = ''m@x.io'', name' = ''Mo'', role = ''guest'', team_id = ''t3''\<rparr>" 0]
  by (simp add: getRBACFilters_def show_nat.simps digit_char_def)

subsection \<open>Confidence thresholds\<close>

lemma tallyStatus_map:
  "tallyStatus (map (\<lambda>s. (s, f s)) ks) (a, r) =
     (if ''approved'' \<in> set ks then f ''approved'' else a,
      if ''rejected'' \<in> set ks then f ''rejected'' else r)"
  by (induction ks arbitrary: a r) auto

lemma count_absent: "s \<notin> set (map p_status rows) \<Longrightarrow> length (filter (\<lambda>r. p_status r = s) rows) = 0"
  by (induction rows) auto

lemma filter_status_nonpending:
  "s \<noteq> ''pending'' \<Longrightarrow>
   filter (\<lambda>r. p_status r = s) (filter (\<lambda>r. p_status r \<noteq> ''pending'') tbl) = filter (\<lambda>r. p_status r = s) tbl"
  by (induction tbl) auto

lemma tallyStatus_counts:
  "tallyStatus (statusCounts tbl) (0, 0) = (countStatus ''approved'' tbl, countStatus ''rejected'' tbl)"
proof -
  let ?rows = "filter (\<lambda>r. p_status r \<noteq> ''pending'') tbl"
  let ?f = "\<lambda>s. length (filter (\<lambda>r. p_status r = s) ?rows)"
  have "tallyStatus (statusCounts tbl) (0, 0) =
     (if ''approved'' \<in> set (map p_status ?rows) then ?f ''approved'' else 0,
      if ''rejected'' \<in> set (map p_status ?rows) then ?f ''rejected'' else 0)"
    unfolding statusCounts_def Let_def by (simp only: tallyStatus_map set_remdups)
  also have "\<dots> = (?f ''approved'', ?f ''rejected'')"
    using count_absent [of "''approved''" ?rows] count_absent [of "''rejected''" ?rows] by auto
  also have "\<dots> = (countStatus ''approved'' tbl, countStatus ''rejected'' tbl)"
    using filter_status_nonpending [of "''approved''" tbl] filter_status_nonpending [of "''rejected''" tbl]
    by (simp add: countStatus_def del: filter_filter)
  finally show ?thesis .
qed

lemma getFeedbackStats_counts:
  "totalApprovals (getFeedbackStats p f) = countStatus ''approved'' p"
  "totalRejections (getFeedbackStats p f) = countStatus ''rejected'' p"
  "approvalRate (getFeedbackStats p f) =
     (if countStatus ''approved'' p + countStatus ''rejected'' p > 0
      then of_nat (countStatus ''approved'' p) / of_nat (countStatus ''approved'' p + countStatus ''rejected'' p)
      else 0)"
  by (simp_all add: getFeedbackStats_def tallyStatus_counts)

lemma autoApprove_cases:
  "autoApprove (getAdjustedConfidenceThresholds p f) =
     (if countStatus ''approved'' p + countStatus ''rejected'' p \<ge> 50 then
        (if approvalRate (getFeedbackStats p f) > 95 / 100 then 85 / 100
         else if approvalRate (getFeedbackStats p f) < 8 / 10 then 95 / 100 else 9 / 10)
      else 9 / 10)"
  by (simp add: getAdjustedConfidenceThresholds_def Let_def getFeedbackStats_counts(1,2))

text \<open>
  Claim C5. \<open>getAdjustedConfidenceThresholds\<close> always returns \<open>requireReview = 0.7\<close>.
  With \<open>a\<close> approved and \<open>r\<close> rejected rows in \<open>pending_classifications\<close>, it returns
  \<open>autoApprove = 0.9\<close> when \<open>a + r < 50\<close>; otherwise \<open>0.85\<close> when the approval rate
  \<open>a / (a + r)\<close> exceeds 0.95, \<open>0.95\<close> when the rate is below 0.8, and \<open>0.9\<close> in between.
  So \<open>autoApprove\<close> is always one of 0.85, 0.9 and 0.95.
\<close>

theorem thresholds_from_history:
  fixes p :: "PendingRow list" and f :: "FeedbackRow list"
  defines "a \<equiv> countStatus ''approved'' p" and "r \<equiv> countStatus ''rejected'' p"
  defines "t \<equiv> getAdjustedConfidenceThresholds p f"
  shows "requireReview t = 7 / 10
       \<and> (a + r < 50 \<longrightarrow> autoApprove t = 9 / 10)
       \<and> (a + r \<ge> 50 \<and> (of_nat a :: rat) / of_nat (a + r) > 95 / 100 \<longrightarrow> autoApprove t = 85 / 100)
       \<and> (a + r \<ge> 50 \<and> (of_nat a :: rat) / of_nat (a + r) < 8 / 10 \<longrightarrow> autoApprove t = 95 / 100)
       \<and> (a + r \<ge> 50 \<and> 8 / 10 \<le> (of_nat a :: rat) / of_nat (a + r) \<and> (of_nat a :: rat) / of_nat (a + r) \<le> 95 / 100
            \<longrightarrow> autoApprove t = 9 / 10)
       \<and> autoApprove t \<in> {85 / 100, 9 / 10, 95 / 100}"
proof -
  define q :: rat where "q = of_nat a / of_nat (a + r)"
  have rate: "a + r \<ge> 50 \<Longrightarrow> approvalRate (getFeedbackStats p f) = q"
    unfolding q_def a_def r_def by (subst getFeedbackStats_counts(3)) simp
  have rr: "requireReview t = 7 / 10"
    by (simp add: t_def getAdjustedConfidenceThresholds_def Let_def)
  have aa: "autoApprove t =
     (if a + r \<ge> 50 then (if q > 95 / 100 then 85 / 100 else if q < 8 / 10 then 95 / 100 else 9 / 10)
      else 9 / 10)"
    unfolding t_def autoApprove_cases using rate by (simp add: a_def r_def)
  show ?thesis
    unfolding rr aa q_def [symmetric] by auto
qed


lemma countStatus_replicate:
  "countStatus s (replicate n row) = (if p_status row = s then n else 0)"
  by (simp add: countStatus_def)

lemma countStatus_append: "countStatus s (xs @ ys) = countStatus s xs + countStatus s ys"
  by (simp add: countStatus_def)

theorem thresholds_from_history_witness:
  "autoApprove (getAdjustedConfidenceThresholds
      (replicate 48 approved_row
       @ replicate 2 rejected_row) []) = 85 / 100
   \<and> autoApprove (getAdjustedConfidenceThresholds
      (replicate 30 approved_row
       @ replicate 20 rejected_row) []) = 95 / 100
   \<and> autoApprove (getAdjustedConfidenceThresholds
      (replicate 45 approved_row
       @ replicate 5 rejected_row) []) = 9 / 10
   \<and> autoApprove (getAdjustedConfidenceThresholds
      (replicate 49 approved_row) []) = 9 / 10"
  using thresholds_from_history [of
      "replicate 48 approved_row
       @ replicate 2 rejected_row" "[]"]
    thresholds_from_history [of
      "replicate 30 approved_row
       @ replicate 20 rejected_row" "[]"]
    thresholds_from_history [of
      "replicate 45 approved_row
       @ replicate 5 rejected_row" "[]"]
    thresholds_from_history [of
      "replicate 49 approved_row" "[]"]
  by (simp add: countStatus_replicate countStatus_append approved_row_def rejected_row_def)

subsection \<open>Query validation\<close>

lemmas char_defs = is_upper_def is_lower_def is_upper_latin_def is_lower_latin_def is_digit_def
  is_word_def is_space_def lower_char_def upper_char_def upper_text_def canonicalize_def
  toLowerCase_def toUpperCase_def trimStart_def trimEnd_def trim_def

lemmas re_defs = word_before_def word_at_def Str_def Plus_def PlusLazy_def Opt_def cap_def
  re_exec_def re_test_def prev_after_def gmatches.simps replace_all_def replace_first_def
  replace_str_def digit_val_def

lemmas vq_defs = ALLOWED_TABLES_def kw_def kw_source_def DANGEROUS_PATTERNS_def tablePattern_def
  tableName_def tables_following_def validateQuery_def








lemma executeQuery_valid:
  "valid (validateQuery sql) \<Longrightarrow>
     statements (snd (executeQuery elapsed db sql ps)) = statements db @ [(sql, ps)]"
  by (auto simp: executeQuery_def Let_def query_def split: sum.splits error.splits)




text \<open>
  The no-break space U+00A0 is white space for \<open>trim\<close> and for \<open>\s\<close>: it may stand before
  SELECT, between FROM and the table name, and between a semicolon and the next statement.
\<close>

lemma validateQuery_no_break_space:
  "valid (validateQuery ([CHR 0xA0] @ ''SELECT 1''))"
  "validateQuery (''SELECT 1 FROM'' @ [CHR 0xA0] @ ''secrets'')
     = \<lparr>valid = False,
         error = Some (''Access to table '' @ [CHR 0x27] @ ''secrets'' @ [CHR 0x27] @ '' is not allowed''),
         tablesAccessed = [''secrets'']\<rparr>"
  "\<not> valid (validateQuery (''SELECT 1;'' @ [CHR 0xA0] @ ''SELECT 2''))"
  by (simp_all add: char_defs re_defs vq_defs)

subsection \<open>The classifier\<close>

lemma clamp_unit:
  "Math_min (Math_max n (Num 0)) (Num 1) = NaN \<or> in_unit_interval (Math_min (Math_max n (Num 0)) (Num 1))"
  by (cases n) (auto simp: Math_min_def Math_max_def in_unit_interval_def)

lemma clamp_NaN: "Math_min (Math_max n (Num 0)) (Num 1) = NaN \<longleftrightarrow> n = NaN"
  by (cases n) (auto simp: Math_min_def Math_max_def)

lemma normalizeClassification_range:
  "normalizeClassification v = Inr c \<Longrightarrow> c \<in> {''productive'', ''neutral'', ''unproductive''}"
  by (auto simp: normalizeClassification_def Let_def split: jsval.splits json.splits if_splits)

lemma classifyParsed_range:
  assumes "classifyParsed num j = Inr r"
  shows "classification r \<in> {''productive'', ''neutral'', ''unproductive''}"
    and "confidence r = NaN \<or> in_unit_interval (confidence r)"
proof -
  from assms obtain cv cls n where
    c: "normalizeClassification cv = Inr cls" "classification r = cls"
       "confidence r = Math_min (Math_max n (Num 0)) (Num 1)"
    by (auto simp: classifyParsed_def split: sum.splits)
  show "classification r \<in> {''productive'', ''neutral'', ''unproductive''}"
    using c(1,2) normalizeClassification_range by blast
  show "confidence r = NaN \<or> in_unit_interval (confidence r)"
    unfolding c(3) by (rule clamp_unit)
qed

lemma fallback_range:
  "classification fallbackClassification = ''neutral''"
  "confidence fallbackClassification = Num (3 / 10)"
  "in_unit_interval (confidence fallbackClassification)"
  by (simp_all add: fallbackClassification_def in_unit_interval_def)

lemma classifyReply_range:
  "classification (classifyReply num p) \<in> {''productive'', ''neutral'', ''unproductive''}"
  "confidence (classifyReply num p) = NaN \<or> in_unit_interval (confidence (classifyReply num p))"
  using classifyParsed_range fallback_range
  by (auto simp: classifyReply_def split: option.splits sum.splits)

lemma classifyParsed_number:
  assumes "map_of (rev kvs) ''confidence'' = Some (JNum (Num q))"
    and "classifyParsed num (JObj kvs) = Inr r"
  shows "in_unit_interval (confidence r)"
proof -
  have "ToNumber num (or_else (Val (JNum (Num q))) (JNum (Num (1 / 2)))) = Inr (Num (if q = 0 then 1 / 2 else q))"
    by (simp add: ToNumber_def or_else_def)
  with assms have "confidence r = Math_min (Math_max (Num (if q = 0 then 1 / 2 else q)) (Num 0)) (Num 1)"
    by (auto simp: classifyParsed_def getProp_def split: sum.splits option.splits)
  then show ?thesis
    using clamp_unit [of "Num (if q = 0 then 1 / 2 else q)"] clamp_NaN [of "Num (if q = 0 then 1 / 2 else q)"]
    by simp
qed

text \<open>
  What holds of every reply: \<open>classifyApp\<close> does not throw once the LLM has replied, the
  classification is one of the three ratings, a reply that \<open>JSON.parse\<close> rejects gives the
  fallback (neutral, 0.3), and a confidence given as a JSON number is clamped.
\<close>

lemma classifyApp_returns:
  "\<exists>r. classifyApp JSON_parse num (Inr reply) = Inr r
       \<and> classification r \<in> {''productive'', ''neutral'', ''unproductive''}
       \<and> (confidence r = NaN \<or> in_unit_interval (confidence r))"
  using classifyReply_range [of num "JSON_parse (extractJson reply)"]
  by (auto simp: classifyApp_def)

lemma classifyApp_unparsable:
  "JSON_parse (extractJson reply) = None \<Longrightarrow>
     classifyApp JSON_parse num (Inr reply) = Inr fallbackClassification"
  by (simp add: classifyApp_def classifyReply_def)

lemma classifyApp_json_number:
  assumes "JSON_parse (extractJson reply) = Some (JObj kvs)"
    and "map_of (rev kvs) ''confidence'' = Some (JNum (Num q))"
    and "classifyParsed num (JObj kvs) = Inr r"
  shows "classifyApp JSON_parse num (Inr reply) = Inr r \<and> in_unit_interval (confidence r)"
  using assms classifyParsed_number [OF assms(2,3)]
  by (simp add: classifyApp_def classifyReply_def)

text \<open>
  Claim C10 says that \<open>classifyApp\<close> returns a confidence clamped to the interval from 0 to
  1 for every reply of the LLM. It does not when the reply gives the confidence as a text
  that is no number, as in \<open>{"classification": "productive", "confidence": "high"}\<close>:
  the text is truthy, so the default 0.5 is not taken, \<open>Math.max\<close> converts it to NaN, and
  the clamp \<open>Math.min(Math.max(.., 0), 1)\<close> returns NaN, which is not between 0 and 1. The
  \<open>catch\<close> block is not entered, and since a comparison with NaN is false, the result
  counts as not below any threshold.
\<close>

theorem classifyApp_confidence_not_clamped:
  assumes "JSON_parse (extractJson reply) =
             Some (JObj [(''classification'', JStr ''productive''), (''confidence'', JStr ''high'')])"
    and "num ''high'' = NaN"
  shows "classifyApp JSON_parse num (Inr reply) =
           Inr \<lparr>classification = ''productive'', confidence = NaN,
                reasoning = JStr ''No reasoning provided'', factors = JArr []\<rparr>
         \<and> \<not> in_unit_interval NaN
         \<and> (\<forall>t. \<not> js_lt NaN t)"
  using assms
  by (simp add: classifyApp_def classifyReply_def classifyParsed_def getProp_def
      normalizeClassification_def ToNumber_def or_else_def Math_max_def Math_min_def
      in_unit_interval_def js_lt_def char_defs)

theorem classifyApp_confidence_not_clamped_witness:
  \<open>classifyApp
      (\<lambda>t. if t = ''{"classification":"productive","confidence":"high"}''
           then Some (JObj [(''classification'', JStr ''productive''), (''confidence'', JStr ''high'')])
           else None)
      (\<lambda>s. NaN)
      (Inr ''```json {"classification":"productive","confidence":"high"} ```'')
     = Inr \<lparr>classification = ''productive'', confidence = NaN,
            reasoning = JStr ''No reasoning provided'', factors = JArr []\<rparr>
   \<and> \<not> in_unit_interval NaN\<close>
proof -
  have e: \<open>extractJson ''```json {"classification":"productive","confidence":"high"} ```''
             = ''{"classification":"productive","confidence":"high"}''\<close>
    by (simp add: extractJson_def fencePattern_def char_defs re_defs)
  show ?thesis
    using classifyApp_confidence_not_clamped [of
        \<open>\<lambda>t. if t = ''{"classification":"productive","confidence":"high"}''
           then Some (JObj [(''classification'', JStr ''productive''), (''confidence'', JStr ''high'')])
           else None\<close>
        \<open>''```json {"classification":"productive","confidence":"high"} ```''\<close>
        "\<lambda>s. NaN"]
    by (simp add: e)
qed

subsection \<open>The classification agent\<close>

lemma no_rule_filter:
  "no_rule_for (o_lower env) app st \<Longrightarrow>
     filter (\<lambda>r. o_lower env (r_app_name r) = o_lower env app) (classification_rules st) = []"
  by (auto simp: no_rule_for_def filter_empty_conv)

lemma classifyNewApp_try_new:
  assumes nr: "no_rule_for (o_lower env) app st"
    and ok: "o_fault env ExistingRuleQuery = None" "o_fault env UsageAnalysis = None"
      "o_fault env ThresholdQuery = None" "o_fault env AuditWrite = None"
    and rep: "o_llm_reply env = Inr reply"
    and ins: "o_fault env
        (if js_lt (confidence (classifyReply (o_number env) (o_parse env (extractJson reply))))
              (Num (autoApprove (getAdjustedConfidenceThresholds (pending_classifications st)
                                   (classification_feedback st))))
         then InsertPending else InsertRule) = None"
  defines "result \<equiv> classifyReply (o_number env) (o_parse env (extractJson reply))"
  defines "thr \<equiv> getAdjustedConfidenceThresholds (pending_classifications st) (classification_feedback st)"
  defines "needs \<equiv> js_lt (confidence result) (Num (autoApprove thr))"
  shows "classifyNewApp_try env st app user =
        (Inr \<lparr>s_id = o_new_id env, appName = app,
               suggestedClassification = classification result,
               s_confidence = confidence result, s_reasoning = reasoning result,
               s_factors = factors result, requiresApproval = needs,
               createdAt = o_now env\<rparr>,
         (if needs
          then st\<lparr>pending_classifications := pending_classifications st @
                  [\<lparr>p_id = o_new_id env, p_app_name = app, p_team_id = team_id user,
                    p_suggested = classification result,
                    p_confidence = o_decimal env (confidence result),
                    p_reasoning = reasoning result, p_status = ''pending'',
                    p_created_at = o_now env\<rparr>]\<rparr>
          else st\<lparr>classification_rules := classification_rules st @
                  [\<lparr>r_id = o_new_id env, r_app_name = app,
                    r_classification = classification result,
                    r_confidence = o_decimal env (confidence result),
                    r_reasoning = reasoning result, r_created_at = o_now env\<rparr>]\<rparr>)
         \<lparr>agent_audit_log := agent_audit_log st @
            [auditRow ((classificationEntry app user (o_elapsed env))
               \<lparr>response := Some ((if needs then ''Suggested: '' else ''Auto-approved: '')
                    @ classification result
                    @ '' (confidence: '' @ o_num_text env (confidence result) @ '')''),
                success := Some True\<rparr>)]\<rparr>)"
proof (cases needs)
  case True
  with ins have "o_fault env InsertPending = None"
    by (simp add: needs_def thr_def result_def)
  with True show ?thesis
    using no_rule_filter [OF nr]
    by (simp add: needs_def thr_def result_def classifyNewApp_try_def ok rep classifyApp_def
        Let_def logAgentAction_def)
next
  case False
  with ins have "o_fault env InsertRule = None"
    by (simp add: needs_def thr_def result_def)
  with False show ?thesis
    using no_rule_filter [OF nr]
    by (simp add: needs_def thr_def result_def classifyNewApp_try_def ok rep classifyApp_def
        Let_def logAgentAction_def)
qed

lemma classifyNewApp_try_returned:
  assumes nr: "no_rule_for (o_lower env) app st"
    and ret: "fst (classifyNewApp_try env st app user) = Inr sugg"
  shows "o_fault env ExistingRuleQuery = None \<and> o_fault env UsageAnalysis = None
         \<and> o_fault env ThresholdQuery = None \<and> o_fault env AuditWrite = None
         \<and> (\<exists>reply. o_llm_reply env = Inr reply
              \<and> o_fault env
                  (if js_lt (confidence (classifyReply (o_number env) (o_parse env (extractJson reply))))
                        (Num (autoApprove (getAdjustedConfidenceThresholds (pending_classifications st)
                                             (classification_feedback st))))
                   then InsertPending else InsertRule) = None)"
  using ret no_rule_filter [OF nr]
  by (cases "o_fault env ExistingRuleQuery"; cases "o_fault env UsageAnalysis";
      cases "o_llm_reply env"; cases "o_fault env ThresholdQuery";
      cases "o_fault env InsertPending"; cases "o_fault env InsertRule";
      cases "o_fault env AuditWrite")
     (simp_all add: classifyNewApp_try_def classifyApp_def Let_def logAgentAction_def
        split: if_splits)

lemma classifyNewApp_returned:
  "fst (classifyNewApp env st app user) = Inr sugg \<Longrightarrow>
     classifyNewApp env st app user = classifyNewApp_try env st app user"
  by (auto simp: classifyNewApp_def split: prod.splits sum.splits error.splits)


text \<open>
  Claim C3. Take an application name for which the lookup finds no classification rule.
  Whenever \<open>classifyNewApp\<close> returns a suggestion, the LLM has replied, and
  \<open>requiresApproval\<close> is true exactly when the confidence of the LLM's classification is
  strictly below the current \<open>autoApprove\<close> threshold. In that case one row with status
  \<open>pending\<close> has been appended to \<open>pending_classifications\<close> and the rules are as before;
  otherwise one row has been appended to \<open>classification_rules\<close> and the pending
  suggestions are as before. In both cases the suggestion carries the classification, the
  confidence and the reasoning of the LLM. And \<open>classifyNewApp\<close> does return a suggestion
  when the LLM replies and no call to the database fails.
\<close>

theorem classifyNewApp_gates_on_confidence:
  fixes user :: AuthenticatedUser
  assumes "no_rule_for (o_lower env) app st"
  defines "thr \<equiv> getAdjustedConfidenceThresholds (pending_classifications st) (classification_feedback st)"
  defines "out \<equiv> classifyNewApp env st app user"
  shows "(\<forall>sugg. fst out = Inr sugg \<longrightarrow>
          (\<exists>reply. o_llm_reply env = Inr reply
            \<and> requiresApproval sugg =
                js_lt (confidence (classifyReply (o_number env) (o_parse env (extractJson reply))))
                      (Num (autoApprove thr))
            \<and> appName sugg = app
            \<and> suggestedClassification sugg =
                classification (classifyReply (o_number env) (o_parse env (extractJson reply)))
            \<and> s_confidence sugg =
                confidence (classifyReply (o_number env) (o_parse env (extractJson reply)))
            \<and> s_reasoning sugg =
                reasoning (classifyReply (o_number env) (o_parse env (extractJson reply)))
            \<and> (requiresApproval sugg \<longrightarrow>
                 (\<exists>row. pending_classifications (snd out) = pending_classifications st @ [row]
                     \<and> p_status row = ''pending'' \<and> p_app_name row = app
                     \<and> p_suggested row =
                         classification (classifyReply (o_number env) (o_parse env (extractJson reply))))
                 \<and> classification_rules (snd out) = classification_rules st)
            \<and> (\<not> requiresApproval sugg \<longrightarrow>
                 (\<exists>row. classification_rules (snd out) = classification_rules st @ [row]
                     \<and> r_app_name row = app
                     \<and> r_classification row =
                         classification (classifyReply (o_number env) (o_parse env (extractJson reply))))
                 \<and> pending_classifications (snd out) = pending_classifications st)))
       \<and> ((\<forall>s \<in> {ExistingRuleQuery, UsageAnalysis, ThresholdQuery, InsertPending, InsertRule,
                   AuditWrite}. o_fault env s = None)
            \<and> (\<exists>reply. o_llm_reply env = Inr reply)
          \<longrightarrow> (\<exists>sugg. fst out = Inr sugg))"
proof -
  have 1: "\<exists>reply. o_llm_reply env = Inr reply
            \<and> requiresApproval sugg =
                js_lt (confidence (classifyReply (o_number env) (o_parse env (extractJson reply))))
                      (Num (autoApprove thr))
            \<and> appName sugg = app
            \<and> suggestedClassification sugg =
                classification (classifyReply (o_number env) (o_parse env (extractJson reply)))
            \<and> s_confidence sugg =
                confidence (classifyReply (o_number env) (o_parse env (extractJson reply)))
            \<and> s_reasoning sugg =
                reasoning (classifyReply (o_number env) (o_parse env (extractJson reply)))
            \<and> (requiresApproval sugg \<longrightarrow>
                 (\<exists>row. pending_classifications (snd out) = pending_classifications st @ [row]
                     \<and> p_status row = ''pending'' \<and> p_app_name row = app
                     \<and> p_suggested row =
                         classification (classifyReply (o_number env) (o_parse env (extractJson reply))))
                 \<and> classification_rules (snd out) = classification_rules st)
            \<and> (\<not> requiresApproval sugg \<longrightarrow>
                 (\<exists>row. classification_rules (snd out) = classification_rules st @ [row]
                     \<and> r_app_name row = app
                     \<and> r_classification row =
                         classification (classifyReply (o_number env) (o_parse env (extractJson reply))))
                 \<and> pending_classifications (snd out) = pending_classifications st)"
    if ret: "fst out = Inr sugg" for sugg
  proof -
    have eq: "out = classifyNewApp_try env st app user"
      unfolding out_def using ret [unfolded out_def] by (rule classifyNewApp_returned)
    have ret': "fst (classifyNewApp_try env st app user) = Inr sugg"
      using ret eq by simp
    from classifyNewApp_try_returned [OF assms(1) ret']
    obtain reply where ok: "o_fault env ExistingRuleQuery = None" "o_fault env UsageAnalysis = None"
        "o_fault env ThresholdQuery = None" "o_fault env AuditWrite = None"
      and rep: "o_llm_reply env = Inr reply"
      and ins: "o_fault env
        (if js_lt (confidence (classifyReply (o_number env) (o_parse env (extractJson reply))))
              (Num (autoApprove (getAdjustedConfidenceThresholds (pending_classifications st)
                                   (classification_feedback st))))
         then InsertPending else InsertRule) = None"
      by blast
    note new = classifyNewApp_try_new [OF assms(1) ok rep ins, of user]
    show ?thesis
      using ret' rep
      by (intro exI [of _ reply]) (auto simp: eq new thr_def)
  qed
  have 2: "\<exists>sugg. fst out = Inr sugg"
    if a: "\<forall>s \<in> {ExistingRuleQuery, UsageAnalysis, ThresholdQuery, InsertPending, InsertRule,
                   AuditWrite}. o_fault env s = None"
      and b: "\<exists>reply. o_llm_reply env = Inr reply"
  proof -
    from b obtain reply where rep: "o_llm_reply env = Inr reply" by blast
    from a have ok: "o_fault env ExistingRuleQuery = None" "o_fault env UsageAnalysis = None"
        "o_fault env ThresholdQuery = None" "o_fault env AuditWrite = None"
        "o_fault env InsertPending = None" "o_fault env InsertRule = None"
      by simp_all
    have ins: "o_fault env
        (if js_lt (confidence (classifyReply (o_number env) (o_parse env (extractJson reply))))
              (Num (autoApprove (getAdjustedConfidenceThresholds (pending_classifications st)
                                   (classification_feedback st))))
         then InsertPending else InsertRule) = None"
      using ok(5,6) by simp
    show ?thesis
      unfolding out_def classifyNewApp_def
      by (simp add: classifyNewApp_try_new [OF assms(1) ok(1-4) rep ins])
  qed
  from 1 2 show ?thesis by blast
qed

lemma classifyNewApp_existing_rule:
  assumes "o_fault env ExistingRuleQuery = None"
    and "\<not> no_rule_for (o_lower env) app st"
  shows "\<exists>sugg. classifyNewApp env st app user = (Inr sugg, st)"
proof -
  from assms(2) obtain rule rest where
    "filter (\<lambda>r. o_lower env (r_app_name r) = o_lower env app) (classification_rules st) = rule # rest"
    by (cases "filter (\<lambda>r. o_lower env (r_app_name r) = o_lower env app) (classification_rules st)")
       (auto simp: no_rule_for_def filter_empty_conv)
  then show ?thesis
    by (simp add: classifyNewApp_def classifyNewApp_try_def assms(1))
qed

lemma demo_extract:
  "extractJson sure_reply = sure_reply" "extractJson unsure_reply = unsure_reply"
  by (simp_all add: sure_reply_def unsure_reply_def extractJson_def fencePattern_def char_defs re_defs)

lemma demo_classify:
  "classifyReply num (demo_parse sure_reply) =
     \<lparr>classification = ''productive'', confidence = Num (95 / 100),
      reasoning = JStr ''No reasoning provided'', factors = JArr []\<rparr>"
  "classifyReply num (demo_parse unsure_reply) =
     \<lparr>classification = ''neutral'', confidence = Num (6 / 10),
      reasoning = JStr ''No reasoning provided'', factors = JArr []\<rparr>"
  by (simp_all add: demo_parse_def sure_reply_def unsure_reply_def classifyReply_def
      classifyParsed_def getProp_def normalizeClassification_def ToNumber_def or_else_def
      Math_max_def Math_min_def char_defs)

lemma demo_thresholds:
  "autoApprove (getAdjustedConfidenceThresholds [] []) = 9 / 10"
  by (simp add: autoApprove_cases countStatus_def)

theorem classifyNewApp_gates_on_confidence_witness:
  "no_rule_for toLowerCase ''zoom'' demo_store
   \<and> (\<exists>sugg. fst (classifyNewApp (demo_outside unsure_reply) demo_store ''zoom'' demo_user) = Inr sugg
          \<and> requiresApproval sugg \<and> appName sugg = ''zoom''
          \<and> suggestedClassification sugg = ''neutral''
          \<and> s_confidence sugg = Num (6 / 10)
          \<and> s_reasoning sugg = JStr ''No reasoning provided'')
   \<and> map p_status (pending_classifications
          (snd (classifyNewApp (demo_outside unsure_reply) demo_store ''zoom'' demo_user))) = [''pending'']
   \<and> map r_app_name (classification_rules
          (snd (classifyNewApp (demo_outside unsure_reply) demo_store ''zoom'' demo_user))) = [''Slack'']
   \<and> (\<exists>sugg. fst (classifyNewApp (demo_outside sure_reply) demo_store ''zoom'' demo_user) = Inr sugg
          \<and> \<not> requiresApproval sugg \<and> appName sugg = ''zoom''
          \<and> suggestedClassification sugg = ''productive''
          \<and> s_confidence sugg = Num (95 / 100))
   \<and> map r_app_name (classification_rules
          (snd (classifyNewApp (demo_outside sure_reply) demo_store ''zoom'' demo_user))) = [''Slack'', ''zoom'']
   \<and> pending_classifications
          (snd (classifyNewApp (demo_outside sure_reply) demo_store ''zoom'' demo_user)) = []"
proof -
  have nr: "no_rule_for (o_lower (demo_outside r)) ''zoom'' demo_store" for r
    by (simp add: no_rule_for_def demo_store_def demo_outside_def char_defs)
  have f: "o_fault (demo_outside r) = (\<lambda>s. None)" "o_llm_reply (demo_outside r) = Inr r"
    "o_parse (demo_outside r) = demo_parse" "o_lower (demo_outside r) = toLowerCase" for r
    by (simp_all add: demo_outside_def)
  have t: "pending_classifications demo_store = []" "classification_feedback demo_store = []"
    "classification_rules demo_store =
        [\<lparr>r_id = ''r1'', r_app_name = ''Slack'', r_classification = ''productive'',
          r_confidence = Num (95 / 100), r_reasoning = JStr ''team chat'', r_created_at = 0\<rparr>]"
    by (simp_all add: demo_store_def)
  have n: "no_rule_for toLowerCase ''zoom'' demo_store"
    using nr [of "[]"] by (simp add: f)
  show ?thesis
    using classifyNewApp_gates_on_confidence [OF nr, of unsure_reply demo_user]
          classifyNewApp_gates_on_confidence [OF nr, of sure_reply demo_user]
    by (auto simp: n f t demo_extract demo_classify demo_thresholds js_lt_def)
qed

subsection \<open>The chat handler and the audit log\<close>

lemma startsWith_append: "startsWith (p @ x) p"
  by (induction p) auto

lemma handleChatQuery_caught:
  assumes "h_fault env AuditFailure = None"
    and "fst (handleChatQuery_try env st db q user) = Inl (Error m, sqlText, tables)"
  shows "\<exists>resp. fst (handleChatQuery env st db q user) = Inr resp \<and> is_failure_response m resp"
  using assms
  by (cases "handleChatQuery_try env st db q user")
     (auto simp: handleChatQuery_def chatLog_def is_failure_response_def startsWith_append)

lemma handleChatQuery_returns:
  assumes "h_fault env AuditFailure = None"
  shows "\<exists>resp. fst (handleChatQuery env st db q user) = Inr resp"
proof (cases "handleChatQuery_try env st db q user")
  case (fields r st' db')
  show ?thesis
  proof (cases r)
    case (Inl f)
    then obtain m sqlText tables where "f = (Error m, sqlText, tables)"
      by (cases f) (metis error.exhaust)
    with Inl fields assms show ?thesis
      by (simp add: handleChatQuery_def chatLog_def)
  next
    case (Inr resp)
    with fields show ?thesis by (simp add: handleChatQuery_def)
  qed
qed

lemma try_fails_classification:
  "classifyQueryType q (h_typeReply env) = Inl e \<Longrightarrow>
     fst (handleChatQuery_try env st db q user) = Inl (e, [], [])"
  by (simp add: handleChatQuery_try_def)

lemma try_fails_parsing:
  "classifyQueryType q (h_typeReply env) = Inr ''data'' \<Longrightarrow> h_parsed env = Inl e \<Longrightarrow>
     fst (handleChatQuery_try env st db q user) = Inl (e, [], [])"
  by (simp add: handleChatQuery_try_def)

lemma try_fails_generation:
  "classifyQueryType q (h_typeReply env) = Inr ''data'' \<Longrightarrow> h_parsed env = Inr pq \<Longrightarrow>
   h_generated env = Inl e \<Longrightarrow>
     fst (handleChatQuery_try env st db q user) = Inl (e, [], [])"
  by (simp add: handleChatQuery_try_def)

lemma try_fails_validation:
  "classifyQueryType q (h_typeReply env) = Inr ''data'' \<Longrightarrow> h_parsed env = Inr pq \<Longrightarrow>
   h_generated env = Inr g \<Longrightarrow> \<not> valid (validateQuery (g_sql g)) \<Longrightarrow>
     fst (handleChatQuery_try env st db q user) =
       Inl (Error (''Invalid SQL: '' @ error_text (error (validateQuery (g_sql g)))), g_sql g, [])"
  by (simp add: handleChatQuery_try_def Let_def)

lemma try_fails_execution:
  "classifyQueryType q (h_typeReply env) = Inr ''data'' \<Longrightarrow> h_parsed env = Inr pq \<Longrightarrow>
   h_generated env = Inr g \<Longrightarrow> valid (validateQuery (g_sql g)) \<Longrightarrow>
   run db (g_sql g) (g_params g) = Inl (Error m) \<Longrightarrow>
     fst (handleChatQuery_try env st db q user) =
       Inl (Error (if h_timedOut env then ''Query timeout'' else ''Query execution failed: '' @ m),
            g_sql g, tablesAccessed (validateQuery (g_sql g)))"
  by (simp add: handleChatQuery_try_def Let_def executeQueryWithTimeout_def executeQuery_def query_def)

lemma try_fails_timeout:
  "classifyQueryType q (h_typeReply env) = Inr ''data'' \<Longrightarrow> h_parsed env = Inr pq \<Longrightarrow>
   h_generated env = Inr g \<Longrightarrow> valid (validateQuery (g_sql g)) \<Longrightarrow> h_timedOut env \<Longrightarrow>
     fst (handleChatQuery_try env st db q user) =
       Inl (Error ''Query timeout'', g_sql g, tablesAccessed (validateQuery (g_sql g)))"
  by (auto simp: handleChatQuery_try_def Let_def executeQueryWithTimeout_def split: prod.splits)


text \<open>
  Claim C9. Provided the audit write of the \<open>catch\<close> block succeeds, \<open>handleChatQuery\<close>
  always returns a response and never throws. Whenever the \<open>try\<close> block throws an error,
  and in particular when the classification of the query, the parsing, the SQL generation,
  the validation or the execution fails, the answer is the text
  \<open>I couldn't process your query.\<close> followed by the error message, the confidence is 0
  and the explanation reports 0 rows.
\<close>

theorem handleChatQuery_never_throws:
  assumes "h_fault env AuditFailure = None"
  shows "(\<exists>resp. fst (handleChatQuery env st db q user) = Inr resp)
    \<and> (\<forall>m sqlText tables.
          fst (handleChatQuery_try env st db q user) = Inl (Error m, sqlText, tables) \<longrightarrow>
          (\<exists>resp. fst (handleChatQuery env st db q user) = Inr resp \<and> is_failure_response m resp))
    \<and> (\<forall>m. classifyQueryType q (h_typeReply env) = Inl (Error m) \<longrightarrow>
          (\<exists>resp. fst (handleChatQuery env st db q user) = Inr resp \<and> is_failure_response m resp))
    \<and> (classifyQueryType q (h_typeReply env) = Inr ''data'' \<longrightarrow>
         (\<forall>m. h_parsed env = Inl (Error m) \<longrightarrow>
            (\<exists>resp. fst (handleChatQuery env st db q user) = Inr resp \<and> is_failure_response m resp))
       \<and> (\<forall>pq m. h_parsed env = Inr pq \<and> h_generated env = Inl (Error m) \<longrightarrow>
            (\<exists>resp. fst (handleChatQuery env st db q user) = Inr resp \<and> is_failure_response m resp))
       \<and> (\<forall>pq g. h_parsed env = Inr pq \<and> h_generated env = Inr g
              \<and> \<not> valid (validateQuery (g_sql g)) \<longrightarrow>
            (\<exists>resp m. fst (handleChatQuery env st db q user) = Inr resp \<and> is_failure_response m resp))
       \<and> (\<forall>pq g m. h_parsed env = Inr pq \<and> h_generated env = Inr g
              \<and> valid (validateQuery (g_sql g))
              \<and> (run db (g_sql g) (g_params g) = Inl (Error m) \<or> h_timedOut env) \<longrightarrow>
            (\<exists>resp m'. fst (handleChatQuery env st db q user) = Inr resp \<and> is_failure_response m' resp)))"
proof -
  note c = handleChatQuery_caught [OF assms]
  have 1: "\<exists>resp. fst (handleChatQuery env st db q user) = Inr resp"
    by (rule handleChatQuery_returns [OF assms])
  have 2: "\<forall>m sqlText tables.
          fst (handleChatQuery_try env st db q user) = Inl (Error m, sqlText, tables) \<longrightarrow>
          (\<exists>resp. fst (handleChatQuery env st db q user) = Inr resp \<and> is_failure_response m resp)"
    using c by blast
  have 3: "\<forall>m. classifyQueryType q (h_typeReply env) = Inl (Error m) \<longrightarrow>
          (\<exists>resp. fst (handleChatQuery env st db q user) = Inr resp \<and> is_failure_response m resp)"
    using c try_fails_classification by blast
  have 4: "\<forall>m. h_parsed env = Inl (Error m) \<longrightarrow>
            (\<exists>resp. fst (handleChatQuery env st db q user) = Inr resp \<and> is_failure_response m resp)"
    if "classifyQueryType q (h_typeReply env) = Inr ''data''"
    using c try_fails_parsing [OF that] by blast
  have 5: "\<forall>pq m. h_parsed env = Inr pq \<and> h_generated env = Inl (Error m) \<longrightarrow>
            (\<exists>resp. fst (handleChatQuery env st db q user) = Inr resp \<and> is_failure_response m resp)"
    if "classifyQueryType q (h_typeReply env) = Inr ''data''"
    using c try_fails_generation [OF that] by blast
  have 6: "\<forall>pq g. h_parsed env = Inr pq \<and> h_generated env = Inr g
              \<and> \<not> valid (validateQuery (g_sql g)) \<longrightarrow>
            (\<exists>resp m. fst (handleChatQuery env st db q user) = Inr resp \<and> is_failure_response m resp)"
    if "classifyQueryType q (h_typeReply env) = Inr ''data''"
    using c try_fails_validation [OF that] by blast
  have 7: "\<forall>pq g m. h_parsed env = Inr pq \<and> h_generated env = Inr g
              \<and> valid (validateQuery (g_sql g))
              \<and> (run db (g_sql g) (g_params g) = Inl (Error m) \<or> h_timedOut env) \<longrightarrow>
            (\<exists>resp m'. fst (handleChatQuery env st db q user) = Inr resp \<and> is_failure_response m' resp)"
    if d: "classifyQueryType q (h_typeReply env) = Inr ''data''"
  proof (intro allI impI)
    fix pq g m
    assume h: "h_parsed env = Inr pq \<and> h_generated env = Inr g
              \<and> valid (validateQuery (g_sql g))
              \<and> (run db (g_sql g) (g_params g) = Inl (Error m) \<or> h_timedOut env)"
    then have "\<exists>m' sqlText tables.
        fst (handleChatQuery_try env st db q user) = Inl (Error m', sqlText, tables)"
      using try_fails_execution [OF d, of pq g db m st user] try_fails_timeout [OF d, of pq g st db user]
      by blast
    then show "\<exists>resp m'. fst (handleChatQuery env st db q user) = Inr resp \<and> is_failure_response m' resp"
      using c by blast
  qed
  from 1 2 3 4 5 6 7 show ?thesis by blast
qed

theorem handleChatQuery_never_throws_witness:
  "h_fault demo_chat AuditFailure = None
   \<and> classifyQueryType ''hours by team'' (h_typeReply demo_chat) = Inr ''data''
   \<and> h_parsed demo_chat = Inl (Error ''LLM unavailable'')
   \<and> (\<exists>resp. fst (handleChatQuery demo_chat demo_store demo_db ''hours by team'' demo_user) = Inr resp
          \<and> is_failure_response ''LLM unavailable'' resp)"
proof -
  have f: "h_fault demo_chat AuditFailure = None"
    by (simp add: demo_chat_def)
  have d: "classifyQueryType ''hours by team'' (h_typeReply demo_chat) = Inr ''data''"
    by (simp add: classifyQueryType_def demo_chat_def char_defs)
  have p: "h_parsed demo_chat = Inl (Error ''LLM unavailable'')"
    by (simp add: demo_chat_def)
  show ?thesis
    using handleChatQuery_never_throws [OF f, of demo_store demo_db "''hours by team''" demo_user] f d p
    by blast
qed

lemma try_audit:
  assumes "h_fault env = (\<lambda>s. None)"
  shows "case handleChatQuery_try env st db q user of
           (Inl f, st', db') \<Rightarrow> st' = st
         | (Inr resp, st', db') \<Rightarrow>
             (\<exists>row. agent_audit_log st' = agent_audit_log st @ [row] \<and> a_success row
                \<and> a_execution_time_ms row = (if h_elapsed env = 0 then None else Some (h_elapsed env)))"
  by (auto simp: handleChatQuery_try_def chatLog_def Let_def assms auditRow_def chatEntry_def
      split: sum.splits prod.splits)

lemma handleChatQuery_audit_once:
  assumes "h_fault env = (\<lambda>s. None)"
  shows "\<exists>row. agent_audit_log (fst (snd (handleChatQuery env st db q user))) = agent_audit_log st @ [row]
       \<and> a_success row = (\<exists>resp. fst (handleChatQuery_try env st db q user) = Inr resp)
       \<and> a_execution_time_ms row = (if h_elapsed env = 0 then None else Some (h_elapsed env))"
proof (cases "handleChatQuery_try env st db q user")
  case (fields r st' db')
  show ?thesis
  proof (cases r)
    case (Inl f)
    obtain m sqlText tables where f: "f = (Error m, sqlText, tables)"
      by (cases f) (metis error.exhaust)
    from try_audit [OF assms, where st=st and db=db and q=q and user=user] fields Inl have "st' = st" by simp
    with fields Inl f show ?thesis
      by (simp add: handleChatQuery_def chatLog_def assms auditRow_def chatEntry_def)
  next
    case (Inr resp)
    with try_audit [OF assms, where st=st and db=db and q=q and user=user] fields show ?thesis
      by (auto simp: handleChatQuery_def)
  qed
qed

lemma classifyNewApp_try_store:
  assumes "no_rule_for (o_lower env) app st" and "o_fault env AuditWrite = None"
  shows "case classifyNewApp_try env st app user of
           (Inl e, st') \<Rightarrow> st' = st
         | (Inr sugg, st') \<Rightarrow>
             (\<exists>row. agent_audit_log st' = agent_audit_log st @ [row] \<and> a_success row
                \<and> a_execution_time_ms row = (if o_elapsed env = 0 then None else Some (o_elapsed env)))"
  using no_rule_filter [OF assms(1)]
  by (auto simp: classifyNewApp_try_def logAgentAction_def Let_def assms(2) auditRow_def
      classificationEntry_def split: option.splits sum.splits)

lemma classifyNewApp_audit_once:
  assumes "no_rule_for (o_lower env) app st" and "o_fault env AuditWrite = None"
    and "o_fault env AuditWriteOnError = None"
  shows "\<exists>row. agent_audit_log (snd (classifyNewApp env st app user)) = agent_audit_log st @ [row]
       \<and> a_success row = (\<exists>sugg. fst (classifyNewApp env st app user) = Inr sugg)
       \<and> a_execution_time_ms row = (if o_elapsed env = 0 then None else Some (o_elapsed env))"
proof (cases "classifyNewApp_try env st app user")
  case (Pair r st')
  show ?thesis
  proof (cases r)
    case (Inl e)
    obtain m where e: "e = Error m" by (cases e)
    from classifyNewApp_try_store [OF assms(1,2), where user=user] Pair Inl have "st' = st" by simp
    with Pair Inl e show ?thesis
      by (simp add: classifyNewApp_def logAgentAction_def assms(3) auditRow_def classificationEntry_def)
  next
    case (Inr sugg)
    with classifyNewApp_try_store [OF assms(1,2), where user=user] Pair show ?thesis
      by (auto simp: classifyNewApp_def)
  qed
qed

text \<open>
  Claim C4 asks for exactly one audit row for every invocation. The two lemmas above give
  that for the chat handler and for an application without a rule. For an application
  that has a rule already, \<open>classifyNewApp\<close> returns from inside the \<open>try\<close> block before
  any call to \<open>logAgentAction\<close>: the call below succeeds and the audit log stays empty.
\<close>

theorem classifyNewApp_existing_rule_unlogged:
  "fst (classifyNewApp (demo_outside sure_reply) demo_store ''slack'' demo_user) =
      Inr \<lparr>s_id = ''r1'', appName = ''Slack'', suggestedClassification = ''productive'',
            s_confidence = Num (95 / 100), s_reasoning = JStr ''team chat'',
            s_factors = JArr [JStr ''existing_rule''], requiresApproval = False, createdAt = 0\<rparr>
   \<and> agent_audit_log (snd (classifyNewApp (demo_outside sure_reply) demo_store ''slack'' demo_user)) = []
   \<and> agent_audit_log demo_store = []"
  by (simp add: classifyNewApp_def classifyNewApp_try_def demo_outside_def demo_store_def
      or_else_def char_defs)

subsection \<open>The fast path of the parser\<close>

lemma parseQuery_direct:
  "directParse q = Some pq \<Longrightarrow> parseQuery k llm q = (Inr pq, llm)"
  by (simp add: parseQuery_def)

lemma parseQuery_llm:
  "directParse q = None \<Longrightarrow>
     parseQuery k llm q = (k q (answers llm (parsePrompt q)), llm\<lparr>asked := asked llm @ [parsePrompt q]\<rparr>)"
  by (simp add: parseQuery_def chat_def)

text \<open>
  Claim C7, amended. For a query that contains \<open>list\<close> or \<open>show\<close> (in any case),
  \<open>parseQuery\<close> tries five tests in this order and returns at the first that succeeds,
  without calling the LLM: \<open>project\<close> without \<open>time\<close> gives entity \<open>projects\<close>; \<open>team\<close>
  without \<open>member\<close> gives \<open>teams\<close>; \<open>user\<close>, \<open>employee\<close> or \<open>member\<close> gives \<open>users\<close>;
  \<open>classification\<close> or \<open>rule\<close> gives \<open>classification_rules\<close>; \<open>app\<close> or \<open>application\<close> gives
  \<open>apps\<close>. The result has intent \<open>list\<close>, no metrics and no filters. When no test
  succeeds, or the query contains neither \<open>list\<close> nor \<open>show\<close>, the LLM is called once.
\<close>

theorem directParse_in_order:
  fixes q :: string
  defines "listing \<equiv> mentions q ''list'' \<or> mentions q ''show''"
  defines "c1 \<equiv> mentions q ''project'' \<and> \<not> mentions q ''time''"
  defines "c2 \<equiv> mentions q ''team'' \<and> \<not> mentions q ''member''"
  defines "c3 \<equiv> mentions q ''user'' \<or> mentions q ''employee'' \<or> mentions q ''member''"
  defines "c4 \<equiv> mentions q ''classification'' \<or> mentions q ''rule''"
  defines "c5 \<equiv> mentions q ''app'' \<or> mentions q ''application''"
  shows "(listing \<and> c1 \<longrightarrow> parseQuery k llm q = (Inr (listOf ''projects''), llm))
     \<and> (listing \<and> \<not> c1 \<and> c2 \<longrightarrow> parseQuery k llm q = (Inr (listOf ''teams''), llm))
     \<and> (listing \<and> \<not> c1 \<and> \<not> c2 \<and> c3 \<longrightarrow> parseQuery k llm q = (Inr (listOf ''users''), llm))
     \<and> (listing \<and> \<not> c1 \<and> \<not> c2 \<and> \<not> c3 \<and> c4 \<longrightarrow>
           parseQuery k llm q = (Inr (listOf ''classification_rules''), llm))
     \<and> (listing \<and> \<not> c1 \<and> \<not> c2 \<and> \<not> c3 \<and> \<not> c4 \<and> c5 \<longrightarrow>
           parseQuery k llm q = (Inr (listOf ''apps''), llm))
     \<and> (\<not> listing \<or> (\<not> c1 \<and> \<not> c2 \<and> \<not> c3 \<and> \<not> c4 \<and> \<not> c5) \<longrightarrow>
           asked (snd (parseQuery k llm q)) = asked llm @ [parsePrompt q])
     \<and> intent (listOf e) = ''list'' \<and> entity (listOf e) = Some e
     \<and> metrics (listOf e) = [] \<and> filters (listOf e) = noFilters"
  unfolding listing_def c1_def c2_def c3_def c4_def c5_def mentions_def
  by (auto simp: parseQuery_def directParse_def Let_def chat_def listOf_def)

text \<open>
  The claim as stated fails twice. \<open>show project time\<close> contains \<open>show\<close> and the entity
  keyword \<open>project\<close>, yet the LLM is called. \<open>list team users\<close> contains \<open>user\<close>, for which
  the claim promises entity \<open>users\<close>, yet the result is \<open>teams\<close>.
\<close>

theorem parseQuery_counterexample:
  "mentions ''show project time'' ''show'' \<and> mentions ''show project time'' ''project''
   \<and> ''project'' \<in> set entityKeywords
   \<and> asked (snd (parseQuery unparsedReply demo_llm ''show project time''))
       = [parsePrompt ''show project time'']
   \<and> mentions ''list team users'' ''list'' \<and> mentions ''list team users'' ''user''
   \<and> fst (parseQuery unparsedReply demo_llm ''list team users'') = Inr (listOf ''teams'')
   \<and> entity (listOf ''teams'') \<noteq> Some ''users''"
  by (simp add: mentions_def parseQuery_def directParse_def listOf_def chat_def demo_llm_def
      entityKeywords_def char_defs)


theorem directParse_in_order_witness:
  "(mentions ''List all Projects'' ''list'' \<or> mentions ''List all Projects'' ''show'')
   \<and> mentions ''List all Projects'' ''project'' \<and> \<not> mentions ''List all Projects'' ''time''
   \<and> parseQuery unparsedReply demo_llm ''List all Projects'' = (Inr (listOf ''projects''), demo_llm)
   \<and> \<not> (mentions ''hours by team'' ''list'' \<or> mentions ''hours by team'' ''show'')
   \<and> asked (snd (parseQuery unparsedReply demo_llm ''hours by team'')) = [parsePrompt ''hours by team'']"
proof -
  have m: "mentions ''List all Projects'' ''list''" "mentions ''List all Projects'' ''project''"
    "\<not> mentions ''List all Projects'' ''time''"
    "\<not> mentions ''hours by team'' ''list''" "\<not> mentions ''hours by team'' ''show''"
    by (simp_all add: mentions_def char_defs)
  show ?thesis
    using directParse_in_order [of "''List all Projects''" unparsedReply demo_llm]
          directParse_in_order [of "''hours by team''" unparsedReply demo_llm] m
    by (simp add: demo_llm_def)
qed

subsection \<open>Post-processing of generated SQL\<close>

lemmas sql_defs = globalTables_def isGlobalQuery_def getRBACFilter_def whereRe_def insertPoints_def
  applyRBAC_def andAndRe_def whereAndRe_def sumRatioRe_def coalesceRatioRe_def floatRe_def
  roundRe_def roundOpenRe_def cleanAnds_def fixDivisions_def fixRounds_def postProcess_def

text \<open>
  Claim C8 says that the post-processed SQL contains no residual \<open>AND AND\<close>. The clean-up
  is one pass of a global replace, which does not look again at the text it has produced:
  of three ANDs in a row, two remain. Here the reply of the LLM is
  \<open>SELECT * FROM app_usage WHERE {RBAC_FILTER} AND AND AND duration > 0\<close>, for an admin.
\<close>

theorem postProcess_leaves_double_AND:
  "postProcess (demo_user\<lparr>role := ''admin''\<rparr>)
      ''SELECT * FROM app_usage WHERE {RBAC_FILTER} AND AND AND duration > 0''
     = ''SELECT * FROM app_usage WHERE 1=1 AND AND duration > 0''
   \<and> includes_str ''SELECT * FROM app_usage WHERE 1=1 AND AND duration > 0'' ''AND AND''"
proof -
  have f: "getRBACFilter (demo_user\<lparr>role := ''admin''\<rparr>)
      (Some ''SELECT * FROM app_usage WHERE {RBAC_FILTER} AND AND AND duration > 0'') = ''1=1''"
    by (simp add: getRBACFilter_def)
  have a: "applyRBAC ''1=1'' ''SELECT * FROM app_usage WHERE {RBAC_FILTER} AND AND AND duration > 0''
      = ''SELECT * FROM app_usage WHERE 1=1 AND AND AND duration > 0''"
    by (simp add: applyRBAC_def replace_str_def)
  have c: "cleanAnds ''SELECT * FROM app_usage WHERE 1=1 AND AND AND duration > 0''
      = ''SELECT * FROM app_usage WHERE 1=1 AND AND duration > 0''"
    by (simp add: cleanAnds_def andAndRe_def whereAndRe_def re_defs char_defs)
  have d: "fixDivisions ''SELECT * FROM app_usage WHERE 1=1 AND AND duration > 0''
      = ''SELECT * FROM app_usage WHERE 1=1 AND AND duration > 0''"
    by (simp add: fixDivisions_def sumRatioRe_def coalesceRatioRe_def floatRe_def re_defs char_defs)
  have r: "fixRounds ''SELECT * FROM app_usage WHERE 1=1 AND AND duration > 0''
      = ''SELECT * FROM app_usage WHERE 1=1 AND AND duration > 0''"
    by (simp add: fixRounds_def roundRe_def roundOpenRe_def re_defs char_defs)
  show ?thesis
    unfolding postProcess_def f a c d r by simp
qed


lemma getRBACFilter_subquery_exempt:
  "getRBACFilter (demo_user\<lparr>role := ''employee''\<rparr>)
      (Some ''SELECT x FROM daily_usage WHERE t IN (SELECT id FROM teams)'') = ''1=1''"
  by (simp add: getRBACFilter_def isGlobalQuery_def globalTables_def char_defs)

subsection \<open>Relative dates\<close>

lemma iter_numeral: "iter (numeral k) f x = iter (pred_numeral k) f (f x)"
  by (simp add: numeral_eq_Suc)

lemma toUTC_unfold:
  "toUTC tz d =
     (if int (d_ms d) - tz * 60000 < 0
      then (prev_day d)\<lparr>d_ms := nat (int (d_ms d) - tz * 60000 + 86400000)\<rparr>
      else if 86400000 \<le> int (d_ms d) - tz * 60000
      then (next_day d)\<lparr>d_ms := nat (int (d_ms d) - tz * 60000 - 86400000)\<rparr>
      else d\<lparr>d_ms := nat (int (d_ms d) - tz * 60000)\<rparr>)"
  unfolding toUTC_def Let_def by (rule refl)

lemma isoDate_unfold:
  "isoDate tz d =
     padStart 4 (show_int (d_year (toUTC tz d))) @ ''-''
       @ padStart 2 (show_nat (d_month (toUTC tz d) + 1)) @ ''-''
       @ padStart 2 (show_nat (d_day (toUTC tz d)))"
  unfolding isoDate_def Let_def by (rule refl)

lemmas date_defs = is_leap_def days_in_month_def next_day_def prev_day_def add_days_def first_of_def
  mkDate_def setDate_def setMonth_def setFullYear_def setHours_def days_before_year_def
  days_before_month_def day_number_def getDay_def show_int_def padStart_def localDateText_def
  localMonthStartText_def toUTC_unfold isoDate_unfold show_nat.simps digit_char_def iter_numeral

lemma sunday_midnight:
  "mkDate (d_year sunday) (int (d_month sunday)) (int (d_day sunday))
     = \<lparr>d_year = 2026, d_month = 10, d_day = 1, d_ms = 0\<rparr>"
  by (simp add: sunday_def date_defs)

lemma sunday_getDay:
  "getDay \<lparr>d_year = 2026, d_month = 10, d_day = 1, d_ms = ms\<rparr> = 0"
  by (simp add: date_defs)

lemma tuesday_getDay:
  "getDay \<lparr>d_year = 2026, d_month = 10, d_day = 3, d_ms = ms\<rparr> = 2"
  by (simp add: date_defs)

lemma ctx_sunday:
  "lastWeekStart (getDateContext 0 sunday) = ''2026-10-26''"
  "lastWeekEnd (getDateContext 0 sunday) = ''2026-11-01''"
proof -
  let ?T = "\<lparr>d_year = 2026, d_month = 10, d_day = 1, d_ms = 0\<rparr>"
  let ?M = "\<lparr>d_year = 2026, d_month = 9, d_day = 26, d_ms = 0\<rparr>"
  have e: "setDate (int (d_day ?T) - int (getDay ?T)) ?T = ?T"
    by (simp add: sunday_getDay) (simp add: date_defs)
  have s: "setDate (int (d_day ?T) - 6) ?T = ?M"
    by (simp add: date_defs)
  have i1: "isoDate 0 ?T = ''2026-11-01''"
    by (simp add: date_defs)
  have i2: "isoDate 0 ?M = ''2026-10-26''"
    by (simp add: date_defs)
  show "lastWeekStart (getDateContext 0 sunday) = ''2026-10-26''"
    by (simp only: getDateContext_def Let_def sunday_midnight e s i2 DateContext.select_convs)
  show "lastWeekEnd (getDateContext 0 sunday) = ''2026-11-01''"
    by (simp only: getDateContext_def Let_def sunday_midnight e i1 DateContext.select_convs)
qed

lemma last_week_fast_path: "includes_str (toLowerCase ''hours last week'') ''last week''"
  by (simp add: char_defs)

lemma extract_sunday:
  "extractDateRange noDate 0 sunday ''hours last week''
     = \<lparr>dr_start = ''2026-10-26'', dr_end = ''2026-11-01''\<rparr>"
  by (simp only: extractDateRange_def Let_def last_week_fast_path ctx_sunday simp_thms if_True)

lemma lower_week:
  "trim (toLowerCase ''previous week'') = ''previous week''"
  "trim (toLowerCase ''last week'') = ''last week''"
  by (simp_all add: char_defs)

lemma relative_week:
  "parseRelativeDate noDate tz now ''previous week'' = Inr (lastWeek tz (setHours 23 59 59 999 now))"
  "parseRelativeDate noDate tz now ''last week'' = Inr (lastWeek tz (setHours 23 59 59 999 now))"
  by (simp_all add: parseRelativeDate_def Let_def lower_week)

lemma lastWeek_sunday:
  "lastWeek 0 (setHours 23 59 59 999 sunday) = \<lparr>dr_start = ''2026-10-19'', dr_end = ''2026-10-25''\<rparr>"
proof -
  let ?T = "\<lparr>d_year = 2026, d_month = 10, d_day = 1, d_ms = 86399999\<rparr>"
  let ?M = "\<lparr>d_year = 2026, d_month = 9, d_day = 19, d_ms = 86399999\<rparr>"
  let ?S = "\<lparr>d_year = 2026, d_month = 9, d_day = 25, d_ms = 86399999\<rparr>"
  have t: "setHours 23 59 59 999 sunday = ?T"
    by (simp add: sunday_def setHours_def)
  have m: "setDate (int (d_day ?T) - 6 - 7) ?T = ?M"
    by (simp add: date_defs)
  have s: "setHours 23 59 59 999 (setDate (int (d_day ?M) + 6) ?M) = ?S"
    by (simp add: date_defs)
  have i1: "isoDate 0 ?M = ''2026-10-19''"
    by (simp add: date_defs)
  have i2: "isoDate 0 ?S = ''2026-10-25''"
    by (simp add: date_defs)
  show ?thesis
    by (simp only: lastWeek_def Let_def t sunday_getDay if_True simp_thms m s i1 i2)
qed

lemma lastWeek_west:
  "lastWeek (- 300) (setHours 23 59 59 999 tuesday)
     = \<lparr>dr_start = ''2026-10-27'', dr_end = ''2026-11-02''\<rparr>"
proof -
  let ?T = "\<lparr>d_year = 2026, d_month = 10, d_day = 3, d_ms = 86399999\<rparr>"
  let ?M = "\<lparr>d_year = 2026, d_month = 9, d_day = 26, d_ms = 86399999\<rparr>"
  let ?S = "\<lparr>d_year = 2026, d_month = 10, d_day = 1, d_ms = 86399999\<rparr>"
  have t: "setHours 23 59 59 999 tuesday = ?T"
    by (simp add: tuesday_def setHours_def)
  have z: "((2::nat) = 0) = False" by simp
  have m: "setDate (int (d_day ?T) - (int 2 - 1) - 7) ?T = ?M"
    by (simp add: date_defs)
  have s: "setHours 23 59 59 999 (setDate (int (d_day ?M) + 6) ?M) = ?S"
    by (simp add: date_defs)
  have i1: "isoDate (- 300) ?M = ''2026-10-27''"
    by (simp add: date_defs)
  have i2: "isoDate (- 300) ?S = ''2026-11-02''"
    by (simp add: date_defs)
  show ?thesis
    by (simp only: lastWeek_def Let_def t tuesday_getDay z if_False simp_thms m s i1 i2)
qed

text \<open>
  Claim C6 says that for every current date the resolver returns, for \<open>last week\<close>, the
  previous calendar week from Monday to Sunday. It does not. On a Sunday the fast path of
  \<open>extractDateRange\<close> takes the week that ends on that very Sunday: for the query
  \<open>hours last week\<close> asked on Sunday 1 November 2026 (UTC) it returns 26 October to
  1 November, where \<open>parseRelativeDate\<close> on the same day returns 19 to 25 October for
  \<open>previous week\<close>. And \<open>parseRelativeDate\<close> prints the local end of day with
  \<open>toISOString\<close>: five hours west of UTC, on Tuesday 3 November 2026, \<open>last week\<close> is
  27 October to 2 November, a Tuesday to a Monday.
\<close>

theorem last_week_not_previous_week:
  "getDay sunday = 0
   \<and> extractDateRange noDate 0 sunday ''hours last week''
        = \<lparr>dr_start = ''2026-10-26'', dr_end = ''2026-11-01''\<rparr>
   \<and> parseRelativeDate noDate 0 sunday ''previous week''
        = Inr \<lparr>dr_start = ''2026-10-19'', dr_end = ''2026-10-25''\<rparr>
   \<and> getDay tuesday = 2
   \<and> parseRelativeDate noDate (- 300) tuesday ''last week''
        = Inr \<lparr>dr_start = ''2026-10-27'', dr_end = ''2026-11-02''\<rparr>"
proof -
  have a: "getDay sunday = 0"
    by (simp only: sunday_def sunday_getDay)
  have b: "getDay tuesday = 2"
    by (simp only: tuesday_def tuesday_getDay)
  show ?thesis
    by (simp only: a b extract_sunday relative_week lastWeek_sunday lastWeek_west simp_thms)
qed

end
